theory Spec2Isabelle
  imports Complex_Main
begin

section \<open>The observatory controller of panoptes/observatory.py\<close>

text \<open>
  The class \<open>Observatory\<close> is modelled as a record of the attributes its methods read and
  write, and every method as a program: a function from the instance to a result and the
  instance as the method left it. A result is \<open>Inr v\<close> when the method returns \<open>v\<close> and
  \<open>Inl e\<close> when the exception \<open>e\<close> leaves it. Calls to the hardware adapters, log records
  and sleeps are appended to the attribute \<open>trace\<close>, in the order in which they happen.
\<close>

subsection \<open>Commands, events and exceptions\<close>

text \<open>The commands the methods send to the camera and the mount objects.\<close>

datatype command =
    CameraConnect
  | CameraDisconnect
  | CameraSetCooling bool
  | CameraCancelExposure
  | CameraTakeImage bool
  | MountConnect
  | MountDisconnect
  | MountSetTrackingRate int int
  | MountCancelSlew
  | MountSlewTo
  | MountPark
  | SchedulerGetTarget

datatype level = Debug | Info | Warning | Critical

text \<open>
  \<open>Log l m\<close> is a record of \<open>self.logger\<close>; \<open>DebugInfo m\<close> is a call of
  \<open>self.debug.info\<close>; \<open>Poll q\<close> is a status query of \<open>query_conditions\<close>.
\<close>

datatype event =
    Command command
  | Log level string
  | DebugInfo string
  | Sleep nat
  | Poll string

datatype exn =
    NameError string
  | TypeError string
  | KeyError string
  | CommandFailure command
  | IOError string

subsection \<open>The instance and its surroundings\<close>

text \<open>
  Modelled from the spec: the class of the scheduler's target is not part of
  observatory.py, which reads only \<open>name\<close> and \<open>test_image_taken\<close>; the other fields
  are the ones the specification lists for a target record.
\<close>

record target =
  name :: string
  min_images :: int
  images_taken :: int
  test_image_taken :: bool
  completed :: bool
  astrometry_solved :: bool
  analysis_attempted :: bool
  analysis_in_progress :: bool

text \<open>
  The attribute \<open>is_dark\<close> of an instance is found on the class, where it is the method,
  until an assignment \<open>self.is_dark = ...\<close> stores a value under that name in the instance.
\<close>

datatype is_dark_binding = Method | Rebound bool

record observatory =
  current_state :: string
  is_dark_attr :: is_dark_binding
  site_date :: real
  sun_alt :: real
  scheduler_target :: "target option"
  heartbeat_filename :: string
  files :: "string \<rightharpoonup> string"
  open_handles :: "string \<rightharpoonup> string"
  trace :: "event list"

text \<open>
  What one invocation finds around the instance. The status attributes of
  \<open>self.camera\<close>, \<open>self.mount\<close> and \<open>self.weather\<close> are written by the status queries
  only (see the comments of \<open>query_conditions\<close>), so a handler reads the same values
  throughout one call. \<open>time_to_start\<close> is the answer of the method \<open>self.time_to_start()\<close>,
  which observatory.py calls and does not define. \<open>fails cmd\<close> says that the adapter
  raises when it is sent \<open>cmd\<close>. \<open>ephem_now\<close> is \<open>ephem.now()\<close>, \<open>sun_altitude_deg d\<close> is
  the altitude of the sun above the horizon of the site at date \<open>d\<close>, in degrees,
  \<open>datetime_now\<close> is \<open>str(datetime.datetime.now())\<close>, \<open>open_fails\<close> says that the
  heartbeat file cannot be opened for writing, and \<open>flush_fails\<close> that what was written
  cannot be flushed to it when it is closed (a full disk).
\<close>

record conditions =
  camera_connected :: bool
  camera_cooling :: bool
  camera_cooled :: bool
  camera_exposing :: bool
  mount_connected :: bool
  mount_tracking :: bool
  mount_slewing :: bool
  mount_parked :: bool
  weather_safe :: bool
  time_to_start :: bool
  fails :: "command \<Rightarrow> bool"
  ephem_now :: real
  sun_altitude_deg :: "real \<Rightarrow> real"
  datetime_now :: string
  open_fails :: bool
  flush_fails :: bool

subsection \<open>Programs\<close>

type_synonym 'a prog = "observatory \<Rightarrow> (exn + 'a) \<times> observatory"

definition ret :: "'a \<Rightarrow> 'a prog" where
  "ret x s = (Inr x, s)"

definition raise :: "exn \<Rightarrow> 'a prog" where
  "raise e s = (Inl e, s)"

definition bind :: "'a prog \<Rightarrow> ('a \<Rightarrow> 'b prog) \<Rightarrow> 'b prog" where
  "bind m f s = (case m s of (Inl e, s') \<Rightarrow> (Inl e, s') | (Inr x, s') \<Rightarrow> f x s')"

text \<open>A sequence of statements: the first exception ends it.\<close>

fun block :: "unit prog list \<Rightarrow> unit prog" where
  "block [] = ret ()"
| "block (m # ms) = bind m (\<lambda>_. block ms)"

text \<open>\<open>try: body except: handler\<close>, with the bare \<open>except\<close> that catches every exception.\<close>

definition try_except :: "unit prog \<Rightarrow> unit prog \<Rightarrow> unit prog" where
  "try_except body handler s =
     (case body s of (Inl e, s') \<Rightarrow> handler s' | (Inr x, s') \<Rightarrow> (Inr x, s'))"

text \<open>\<open>if b: body\<close> without an \<open>else\<close>.\<close>

definition py_if :: "bool \<Rightarrow> unit prog \<Rightarrow> unit prog" where
  "py_if b body = (if b then body else ret ())"

definition gets :: "(observatory \<Rightarrow> 'a) \<Rightarrow> 'a prog" where
  "gets f s = (Inr (f s), s)"

definition modify :: "(observatory \<Rightarrow> observatory) \<Rightarrow> unit prog" where
  "modify f s = (Inr (), f s)"

definition emit :: "event \<Rightarrow> unit prog" where
  "emit e = modify (\<lambda>s. s\<lparr>trace := trace s @ [e]\<rparr>)"

definition logger :: "level \<Rightarrow> string \<Rightarrow> unit prog" where
  "logger l m = emit (Log l m)"

definition debug_info :: "string \<Rightarrow> unit prog" where
  "debug_info m = emit (DebugInfo m)"

definition sleep :: "nat \<Rightarrow> unit prog" where
  "sleep n = emit (Sleep n)"

text \<open>A call of an adapter method: the call is made, and raises when the adapter fails.\<close>

definition call :: "conditions \<Rightarrow> command \<Rightarrow> unit prog" where
  "call c cmd = bind (emit (Command cmd))
     (\<lambda>_. if fails c cmd then raise (CommandFailure cmd) else ret ())"

definition set_state :: "string \<Rightarrow> unit prog" where
  "set_state st = modify (\<lambda>s. s\<lparr>current_state := st\<rparr>)"

text \<open>
  The names bound at the top level of the module: its imports and the class. A name that a
  method reads and that is neither one of its local variables nor one of these (nor a
  builtin) raises \<open>NameError\<close>. The names the module does bind are modules and the class,
  none of them an object of the kind the methods ask for (a dictionary of handlers, a
  scheduler, a target, an observatory), so the model lets such a use raise as well.
\<close>

definition module_globals :: "string list" where
  "module_globals = [''division'', ''print_function'', ''sys'', ''os'', ''argparse'',
     ''ephem'', ''datetime'', ''time'', ''importlib'', ''panoptes'', ''mount'', ''camera'',
     ''weather'', ''logger'', ''config'', ''error'', ''Observatory'']"

definition load_global :: "string \<Rightarrow> 'a prog" where
  "load_global n = raise (if n \<in> set module_globals then TypeError n else NameError n)"

subsection \<open>The day/night oracle\<close>

text \<open>
  The ephemeris library is not part of the source. After \<open>self.sun.compute(self.site)\<close> the
  attribute \<open>alt\<close> of the sun is an angle of that library: a floating point number that
  holds the altitude in radians, between \<open>-pi/2\<close> and \<open>pi/2\<close>, and compares as that number.
\<close>

definition radians :: "real \<Rightarrow> real" where
  "radians deg = deg * pi / 180"

text \<open>
  The body of the method \<open>is_dark(self, dark_horizon)\<close>. Its last two lines store the
  comparison in the instance under the name \<open>is_dark\<close> and return what they stored.
\<close>

definition is_dark :: "conditions \<Rightarrow> real \<Rightarrow> bool prog" where
  "is_dark c dark_horizon =
     bind (block [
       logger Debug ''Calculating is_dark.'',
       modify (\<lambda>s. s\<lparr>site_date := ephem_now c\<rparr>),
       modify (\<lambda>s. s\<lparr>sun_alt := radians (sun_altitude_deg c (site_date s))\<rparr>)])
     (\<lambda>_. bind (gets sun_alt)
     (\<lambda>alt. bind (modify (\<lambda>s. s\<lparr>is_dark_attr := Rebound (alt < dark_horizon)\<rparr>))
     (\<lambda>_. ret (alt < dark_horizon))))"

text \<open>
  The expression \<open>self.is_dark(h)\<close>: the attribute is looked up on the instance first, and
  calling a boolean raises \<open>TypeError\<close>.
\<close>

definition self_is_dark :: "conditions \<Rightarrow> real \<Rightarrow> bool prog" where
  "self_is_dark c dark_horizon =
     bind (gets is_dark_attr)
       (\<lambda>a. case a of
          Method \<Rightarrow> is_dark c dark_horizon
        | Rebound b \<Rightarrow> raise (TypeError ''bool object is not callable''))"

text \<open>The default value of the parameter \<open>dark_horizon\<close>.\<close>

definition default_dark_horizon :: real where
  "default_dark_horizon = - 12"


subsection \<open>The heartbeat file\<close>

text \<open>
  \<open>open(fn, 'w')\<close> creates or truncates the file and gives a handle with an empty buffer;
  \<open>write\<close> appends to the buffer of the handle; leaving the \<open>with\<close> statement closes the
  handle, also when the body raised. Closing flushes the buffer to the file; when that
  fails the handle is closed all the same, the file keeps what it held and the error
  leaves the \<open>with\<close> statement.
\<close>

definition file_open_w :: "conditions \<Rightarrow> string \<Rightarrow> unit prog" where
  "file_open_w c fn =
     (if open_fails c then raise (IOError fn)
      else modify (\<lambda>s. s\<lparr>files := (files s)(fn \<mapsto> []),
                           open_handles := (open_handles s)(fn \<mapsto> [])\<rparr>))"

definition file_write :: "string \<Rightarrow> string \<Rightarrow> unit prog" where
  "file_write fn data =
     bind (gets open_handles)
       (\<lambda>hs. case hs fn of
          None \<Rightarrow> raise (IOError fn)
        | Some buf \<Rightarrow> modify (\<lambda>s. s\<lparr>open_handles := (open_handles s)(fn \<mapsto> buf @ data)\<rparr>))"

definition file_close :: "conditions \<Rightarrow> string \<Rightarrow> unit prog" where
  "file_close c fn =
     bind (gets open_handles)
       (\<lambda>hs. case hs fn of
          None \<Rightarrow> ret ()
        | Some buf \<Rightarrow>
            if flush_fails c then
              bind (modify (\<lambda>s. s\<lparr>open_handles := (open_handles s)(fn := None)\<rparr>))
                (\<lambda>_. raise (IOError fn))
            else
              modify (\<lambda>s. s\<lparr>files := (files s)(fn \<mapsto>
                                 (case files s fn of None \<Rightarrow> [] | Some d \<Rightarrow> d) @ buf),
                             open_handles := (open_handles s)(fn := None)\<rparr>))"

definition with_open_w :: "conditions \<Rightarrow> string \<Rightarrow> unit prog \<Rightarrow> unit prog" where
  "with_open_w c fn body =
     bind (file_open_w c fn)
       (\<lambda>_ s. case body s of
                 (r, s') \<Rightarrow> (case file_close c fn s' of
                               (Inl e, s'') \<Rightarrow> (Inl e, s'')
                             | (Inr u, s'') \<Rightarrow> (r, s'')))"

definition newline :: string where
  "newline = [CHR 0x0A]"

definition heartbeat :: "conditions \<Rightarrow> unit prog" where
  "heartbeat c =
     block [
       logger Debug ''Touching heartbeat file'',
       bind (gets heartbeat_filename)
         (\<lambda>fn. with_open_w c fn (file_write fn (datetime_now c @ newline)))]"

subsection \<open>The state handlers\<close>

text \<open>The second statement of every handler: \<open>self.debug.info\<close> with the state just set.\<close>

definition entering :: "unit prog" where
  "entering =
     bind (gets current_state)
       (\<lambda>st. debug_info (''Entering '' @ st @ '' while_state function.''))"

text \<open>
  The body of the \<open>except\<close> clauses around the corrective commands: the three statements
  are the same in each of them, up to the message.
\<close>

definition except_park :: "conditions \<Rightarrow> string \<Rightarrow> unit prog" where
  "except_park c msg =
     block [set_state ''parking'', logger Critical msg, call c MountPark]"

text \<open>
  The statement that closes \<open>while_getting_ready\<close>, \<open>while_scheduling\<close> and the repair
  branch of \<open>while_slewing\<close>, word for word the same in the three.
\<close>

definition park_if_unsafe :: "conditions \<Rightarrow> unit prog" where
  "park_if_unsafe c =
     py_if (\<not> weather_safe c) (block [
       set_state ''parking'',
       logger Info ''Weather is bad.  Parking.'',
       try_except (call c MountPark) (block [
         set_state ''getting ready'',
         logger Critical ''Unable to park during bad weather.''])])"

definition shutdown_consistent :: "conditions \<Rightarrow> bool" where
  "shutdown_consistent c \<longleftrightarrow>
     \<not> time_to_start c \<and> \<not> camera_connected c \<and> \<not> mount_connected c"

text \<open>
  Each handler is written as in the source: the state is set, the entry is reported, the
  test of consistency chooses between waiting and the \<open>else\<close> branch, and the state the
  instance then has is returned. The \<open>else\<close> branch of a handler is a definition of its
  own, named \<open>..._repair\<close>.
\<close>

definition shutdown_repair :: "conditions \<Rightarrow> unit prog" where
  "shutdown_repair c =
     block [
       py_if (mount_connected c) (block [
         logger Warning ''Mount is connected in shutdown state.  Disconnecting.'',
         call c MountDisconnect]),
       py_if (camera_connected c) (block [
         logger Warning ''Camera is connected in shutdown state.  Disconnecting.'',
         call c CameraDisconnect]),
       py_if (time_to_start c) (block [
         logger Info ''Connect to camera and mount.  Transition to sleeping.'',
         set_state ''sleeping'',
         try_except (call c CameraConnect)
           (except_park c ''Unable to connect to camera.  Parking.''),
         try_except (call c MountConnect)
           (except_park c ''Unable to connect to mount.  Parking.'')])]"

definition while_shutdown :: "conditions \<Rightarrow> string prog" where
  "while_shutdown c =
     bind (block [
       set_state ''shutdown'',
       entering,
       if shutdown_consistent c then block [
         logger Info ''In shutdown state.  Waiting 60 sec for dark.'',
         sleep 60]
       else shutdown_repair c])
     (\<lambda>_. gets current_state)"

definition sleeping_consistent :: "conditions \<Rightarrow> bool \<Rightarrow> bool" where
  "sleeping_consistent c dark \<longleftrightarrow>
     \<not> dark \<and> camera_connected c \<and> \<not> camera_cooling c \<and> \<not> camera_exposing c \<and>
     mount_connected c \<and> \<not> mount_tracking c \<and> \<not> mount_slewing c \<and> mount_parked c"

definition sleeping_repair :: "conditions \<Rightarrow> unit prog" where
  "sleeping_repair c =
     block [
       py_if (\<not> camera_connected c) (block [
         logger Warning ''Camera is not connected.  Connecting.'',
         try_except (call c CameraConnect)
           (except_park c ''Unable to connect to camera.  Parking.'')]),
       py_if (camera_cooling c) (block [
         logger Warning ''Camera is cooling.  Turning off cooler.'',
         try_except (call c (CameraSetCooling False))
           (except_park c ''Camera not responding to set cooling.  Parking.'')]),
       py_if (camera_exposing c) (block [
         logger Warning ''Camera is exposing.  Canceling exposure.'',
         try_except (call c CameraCancelExposure)
           (except_park c ''Camera not responding to cancel exposure.  Parking.'')]),
       py_if (\<not> mount_connected c) (block [
         logger Warning ''Mount is not connected.  Connecting.'',
         try_except (call c MountConnect)
           (except_park c ''Unable to connect to mount.  Parking.'')]),
       py_if (mount_tracking c) (block [
         logger Warning ''Mount is tracking.  Turning off tracking.'',
         try_except (call c (MountSetTrackingRate 0 0))
           (except_park c ''Mount not responding to set tracking.  Parking.'')]),
       py_if (mount_slewing c) (block [
         logger Warning ''Mount is slewing.  Canceling slew.'',
         try_except (call c MountCancelSlew)
           (except_park c ''Mount not responding to cancel slew.  Parking.'')]),
       py_if (\<not> mount_parked c) (block [
         set_state ''parking'',
         logger Critical ''Mount not parked in sleeping state.  Parking.'',
         call c MountPark]),
       bind (self_is_dark c default_dark_horizon) (\<lambda>dark2.
       py_if (dark2 \<and> weather_safe c) (block [
         set_state ''getting ready'',
         logger Info ''Conditions are now dark, moving to getting ready state.'',
         logger Info ''Turning on camera cooler.'',
         try_except (call c (CameraSetCooling True))
           (except_park c ''Camera not responding to set cooling.  Parking.'')]))]"

definition while_sleeping :: "conditions \<Rightarrow> string prog" where
  "while_sleeping c =
     bind (block [
       set_state ''sleeping'',
       entering,
       bind (self_is_dark c default_dark_horizon) (\<lambda>dark.
       if sleeping_consistent c dark then block [
         logger Info ''In sleeping state.  Waiting 60 sec for dark.'',
         sleep 60]
       else sleeping_repair c)])
     (\<lambda>_. gets current_state)"

definition getting_ready_consistent :: "conditions \<Rightarrow> bool \<Rightarrow> target option \<Rightarrow> bool" where
  "getting_ready_consistent c dark tgt \<longleftrightarrow>
     dark \<and> camera_connected c \<and> camera_cooling c \<and> \<not> camera_cooled c \<and>
     \<not> camera_exposing c \<and> mount_connected c \<and> \<not> mount_tracking c \<and>
     \<not> mount_slewing c \<and> tgt = None \<and> weather_safe c"

definition getting_ready_repair :: "conditions \<Rightarrow> unit prog" where
  "getting_ready_repair c =
     block [
       py_if (\<not> camera_connected c) (block [
         logger Warning ''Camera is not connected.  Connecting.'',
         try_except (call c CameraConnect)
           (except_park c ''Unable to connect to camera.  Parking.'')]),
       py_if (\<not> camera_cooling c) (block [
         logger Warning ''Camera is not cooling.  Turning on cooling.'',
         try_except (call c (CameraSetCooling True))
           (except_park c ''Camera not responding to set cooling.  Parking.'')]),
       py_if (camera_exposing c) (block [
         logger Warning ''Camera is exposing.  Canceling exposure.'',
         try_except (call c CameraCancelExposure)
           (except_park c ''Camera not responding to cancel exposure.  Parking.'')]),
       py_if (camera_cooled c \<and> weather_safe c) (block [
         logger Warning ''Camera is not cooling.  Turning on cooling.'',
         set_state ''scheduling'',
         try_except
           (bind (load_global ''scheduler'') (\<lambda>scheduler :: unit.
              call c SchedulerGetTarget))
           (block [
              set_state ''getting ready'',
              logger Warning
                ''Scheduler failed to get a target.  Going back to getting ready state.''])]),
       py_if (\<not> mount_connected c) (block [
         logger Warning ''Mount is not connected.  Connecting.'',
         try_except (call c MountConnect)
           (except_park c ''Unable to connect to mount.  Parking.'')]),
       py_if (mount_tracking c) (block [
         logger Warning ''Mount is tracking.  Turning off tracking.'',
         try_except (call c (MountSetTrackingRate 0 0))
           (except_park c ''Mount not responding to set tracking.  Parking.'')]),
       py_if (mount_slewing c) (block [
         logger Warning ''Mount is slewing.  Canceling slew.'',
         try_except (call c MountCancelSlew)
           (except_park c ''Mount not responding to cancel slew.  Parking.'')]),
       bind (gets scheduler_target) (\<lambda>tgt2.
       py_if (tgt2 \<noteq> None) (block [
         logger Debug ''Clearing target queue.'',
         modify (\<lambda>s. s\<lparr>scheduler_target := None\<rparr>)])),
       park_if_unsafe c]"

definition while_getting_ready :: "conditions \<Rightarrow> string prog" where
  "while_getting_ready c =
     bind (block [
       set_state ''getting ready'',
       entering,
       bind (self_is_dark c default_dark_horizon) (\<lambda>dark.
       bind (gets scheduler_target) (\<lambda>tgt.
       if getting_ready_consistent c dark tgt then block [
         logger Debug ''Conditions expected for getting ready state are met.'',
         logger Info
           ''In getting ready state.  Waiting 10 sec for components to be ready.'',
         sleep 10]
       else getting_ready_repair c))])
     (\<lambda>_. gets current_state)"

definition scheduling_consistent :: "conditions \<Rightarrow> bool \<Rightarrow> bool" where
  "scheduling_consistent c dark \<longleftrightarrow>
     dark \<and> camera_connected c \<and> camera_cooling c \<and> camera_cooled c \<and>
     \<not> camera_exposing c \<and> mount_connected c \<and> \<not> mount_slewing c \<and> weather_safe c"

definition scheduling_repair :: "conditions \<Rightarrow> unit prog" where
  "scheduling_repair c =
     block [
       bind (self_is_dark c default_dark_horizon) (\<lambda>dark2.
       py_if (\<not> dark2) (block [
         set_state ''parking'',
         logger Info ''End of night.  Parking.'',
         try_except (call c MountPark) (block [
           set_state ''getting ready'',
           logger Critical ''Unable to park during bad weather.''])])),
       py_if (\<not> camera_connected c) (block [
         set_state ''getting ready'',
         logger Warning
           ''Camera not connected.  Connecting and going to getting ready state.'',
         try_except (call c CameraConnect)
           (except_park c ''Unable to connect to camera.  Parking.'')]),
       py_if (\<not> camera_cooling c) (block [
         set_state ''getting ready'',
         logger Warning
           ''Camera cooler is off.  Turning cooler on and going to getting ready state.'',
         try_except (call c (CameraSetCooling True))
           (except_park c ''Camera not responding to set cooling.  Parking.'')]),
       py_if (\<not> camera_cooled c) (block [
         set_state ''getting ready'',
         logger Warning ''Camera not finished cooling.  Going to getting ready state.'']),
       py_if (camera_exposing c) (block [
         set_state ''getting ready'',
         logger Warning
           ''Camera is exposing.  Canceling exposure and going to getting ready state.'',
         try_except (call c CameraCancelExposure)
           (except_park c ''Camera not responding to cancel exposure.  Parking.'')]),
       py_if (\<not> mount_connected c) (block [
         set_state ''getting ready'',
         logger Warning
           ''Mount not connected.  Connecting and going to getting ready state.'',
         try_except (call c MountConnect)
           (except_park c ''Unable to connect to mount.  Parking.'')]),
       py_if (mount_slewing c) (block [
         set_state ''getting ready'',
         logger Warning
           ''Mount is slewing.  Cancelling slew and going to getting ready state.'',
         try_except (call c MountCancelSlew)
           (except_park c ''Mount not responding to cancel slew.  Parking.'')]),
       bind (gets scheduler_target) (\<lambda>tgt.
       py_if (tgt \<noteq> None \<and> weather_safe c) (block [
         logger Info (''Target selected: '' @ (case tgt of None \<Rightarrow> [] | Some t \<Rightarrow> name t)),
         set_state ''slewing'',
         logger Info ''Slewing telescope.'',
         try_except
           (bind (load_global ''target'') (\<lambda>target :: target.
              call c MountSlewTo))
           (block [
              logger Critical ''Slew failed.  Going to getting ready.'',
              set_state ''getting ready''])])),
       park_if_unsafe c]"

definition while_scheduling :: "conditions \<Rightarrow> string prog" where
  "while_scheduling c =
     bind (block [
       set_state ''scheduling'',
       entering,
       bind (self_is_dark c default_dark_horizon) (\<lambda>dark.
       if scheduling_consistent c dark then ret ()
       else scheduling_repair c)])
     (\<lambda>_. gets current_state)"

definition slewing_consistent :: "conditions \<Rightarrow> bool" where
  "slewing_consistent c \<longleftrightarrow> mount_connected c \<and> mount_slewing c"

definition slewing_repair :: "conditions \<Rightarrow> unit prog" where
  "slewing_repair c =
     block [
       py_if (\<not> mount_slewing c \<and> weather_safe c)
         (bind (load_global ''target'') (\<lambda>target :: target.
            if \<not> test_image_taken target then block [
              set_state ''taking test image'',
              call c (CameraTakeImage True)]
            else block [
              set_state ''imaging'',
              call c (CameraTakeImage False)])),
       park_if_unsafe c]"

definition while_slewing :: "conditions \<Rightarrow> string prog" where
  "while_slewing c =
     bind (block [
       set_state ''slewing'',
       entering,
       if slewing_consistent c then ret ()
       else slewing_repair c])
     (\<lambda>_. gets current_state)"

text \<open>The remaining five handlers set the state, report that they were entered and return.\<close>

definition while_taking_test_image :: "conditions \<Rightarrow> string prog" where
  "while_taking_test_image c =
     bind (block [set_state ''taking test image'', entering]) (\<lambda>_. gets current_state)"

definition while_analyzing :: "conditions \<Rightarrow> string prog" where
  "while_analyzing c =
     bind (block [set_state ''analyzing'', entering]) (\<lambda>_. gets current_state)"

definition while_imaging :: "conditions \<Rightarrow> string prog" where
  "while_imaging c =
     bind (block [set_state ''imaging'', entering]) (\<lambda>_. gets current_state)"

definition while_parking :: "conditions \<Rightarrow> string prog" where
  "while_parking c =
     bind (block [set_state ''parking'', entering]) (\<lambda>_. gets current_state)"

definition while_parked :: "conditions \<Rightarrow> string prog" where
  "while_parked c =
     bind (block [set_state ''parked'', entering]) (\<lambda>_. gets current_state)"

subsection \<open>The controller loop\<close>

text \<open>The dictionary \<open>self.states\<close> that \<open>__init__\<close> builds.\<close>

definition self_states :: "conditions \<Rightarrow> string \<rightharpoonup> string prog" where
  "self_states c = map_of [
     (''shutdown'', while_shutdown c),
     (''sleeping'', while_sleeping c),
     (''getting ready'', while_getting_ready c),
     (''scheduling'', while_scheduling c),
     (''slewing'', while_slewing c),
     (''taking test image'', while_taking_test_image c),
     (''analyzing'', while_analyzing c),
     (''imaging'', while_imaging c),
     (''parking'', while_parking c),
     (''parked'', while_parked c)]"

text \<open>Every line of \<open>query_conditions\<close> starts by reading the global name \<open>observatory\<close>.\<close>

definition query :: "string \<Rightarrow> unit prog" where
  "query q = bind (load_global ''observatory'') (\<lambda>observatory :: unit. emit (Poll q))"

definition query_conditions :: "unit prog" where
  "query_conditions =
     block [
       query ''weather.check_conditions'',
       query ''camera.is_connected'',
       query ''camera.is_cooling'',
       query ''camera.is_cooled'',
       query ''camera.is_exposing'',
       query ''mount.is_connected'',
       query ''mount.is_tracking'',
       query ''mount.is_slewing'',
       query ''mount.is_parked'']"

text \<open>The expression \<open>states[self.current_state]()\<close>: the dictionary is the global \<open>states\<close>.\<close>

definition dispatch :: "string prog" where
  "dispatch =
     bind (load_global ''states'') (\<lambda>states :: string \<rightharpoonup> string prog.
     bind (gets current_state) (\<lambda>st.
       case states st of None \<Rightarrow> raise (KeyError st) | Some handler \<Rightarrow> handler))"

text \<open>One pass through the body of the loop, after the test for the stop signal.\<close>

definition cycle :: "unit prog" where
  "cycle = block [query_conditions, bind dispatch (\<lambda>next_state. set_state next_state)]"

text \<open>
  \<open>start_observing\<close>: the loop returns when it finds the state \<open>stop_observing\<close>, and an
  exception of its body leaves it. A loop that runs forever has the value \<open>None\<close>.
\<close>

partial_function (option) start_observing ::
    "observatory \<Rightarrow> ((exn + unit) \<times> observatory) option" where
  "start_observing s =
     (if current_state s = ''stop_observing'' then Some (Inr (), s)
      else case cycle s of
             (Inl e, s') \<Rightarrow> Some (Inl e, s')
           | (Inr u, s') \<Rightarrow> start_observing s')"

subsection \<open>What a run shows\<close>

text \<open>The events a method added to the trace, between the instance \<open>s\<close> and the instance \<open>s'\<close>.\<close>

definition issued :: "observatory \<Rightarrow> observatory \<Rightarrow> event list" where
  "issued s s' = drop (length (trace s)) (trace s')"

fun is_critical :: "event \<Rightarrow> bool" where
  "is_critical (Log l m) = (l = Critical)"
| "is_critical e = False"

definition critical_logs :: "event list \<Rightarrow> nat" where
  "critical_logs evs = length (filter is_critical evs)"

fun is_command :: "event \<Rightarrow> bool" where
  "is_command (Command cmd) = True"
| "is_command e = False"

definition commands_of :: "event list \<Rightarrow> event list" where
  "commands_of evs = filter is_command evs"

definition park_calls :: "event list \<Rightarrow> nat" where
  "park_calls evs = count_list evs (Command MountPark)"

text \<open>Every call of \<open>heartbeat\<close> starts with the same debug record.\<close>

definition heartbeat_calls :: "event list \<Rightarrow> nat" where
  "heartbeat_calls evs = count_list evs (Log Debug ''Touching heartbeat file'')"

subsection \<open>Assertions about a run\<close>

text \<open>
  \<open>hoare P m Q\<close>: from every instance that satisfies \<open>P\<close> the statement \<open>m\<close> completes
  without an exception and leaves an instance that satisfies \<open>Q\<close>.
\<close>

definition hoare :: "(observatory \<Rightarrow> bool) \<Rightarrow> unit prog \<Rightarrow> (observatory \<Rightarrow> bool) \<Rightarrow> bool" where
  "hoare P m Q \<longleftrightarrow> (\<forall>s. P s \<longrightarrow> (\<exists>s'. m s = (Inr (), s') \<and> Q s'))"

text \<open>
  \<open>acts m R\<close>: on every instance the statement \<open>m\<close> completes without an exception, and
  \<open>R\<close> relates the state before, the state after and the events it appended to the trace.
\<close>

definition acts :: "unit prog \<Rightarrow> (string \<Rightarrow> string \<Rightarrow> event list \<Rightarrow> bool) \<Rightarrow> bool" where
  "acts m R \<longleftrightarrow>
     (\<forall>s. \<exists>s' evs. m s = (Inr (), s') \<and> trace s' = trace s @ evs
        \<and> R (current_state s) (current_state s') evs)"

text \<open>
  \<open>after s0 Rel s\<close>: the trace of \<open>s\<close> is the trace of \<open>s0\<close> followed by events that,
  with the state of \<open>s\<close>, satisfy \<open>Rel\<close>.
\<close>

definition after :: "observatory \<Rightarrow> (string \<Rightarrow> event list \<Rightarrow> bool) \<Rightarrow> observatory \<Rightarrow> bool" where
  "after s0 Rel s \<longleftrightarrow> (\<exists>evs. trace s = trace s0 @ evs \<and> Rel (current_state s) evs)"

text \<open>
  The instance as a handler leaves it before its test of consistency chooses a branch:
  \<open>reported\<close> for the handlers that set the state and report the entry, \<open>entered\<close> for
  those that then call \<open>self.is_dark()\<close>.
\<close>

definition reported :: "string \<Rightarrow> observatory \<Rightarrow> observatory" where
  "reported st s = snd (block [set_state st, entering] s)"

definition entered :: "conditions \<Rightarrow> string \<Rightarrow> observatory \<Rightarrow> observatory" where
  "entered c st s =
     snd (bind (block [set_state st, entering]) (\<lambda>_. self_is_dark c default_dark_horizon) s)"

text \<open>
  What the events of a run say: so far the command \<open>a\<close> was not sent, nothing critical was
  logged and the mount was not told to park; the scheduler was asked in vain and the mount
  was not told to park; the mount was told to park once; the command \<open>a\<close> was not sent,
  or else the state is \<open>parking\<close> after one critical record and a command to park.
\<close>

definition quiet_so_far :: "command \<Rightarrow> string \<Rightarrow> event list \<Rightarrow> bool" where
  "quiet_so_far a st evs \<longleftrightarrow>
     Command a \<notin> set evs \<and> critical_logs evs = 0 \<and> park_calls evs = 0"

definition retrying :: "string \<Rightarrow> event list \<Rightarrow> bool" where
  "retrying st evs \<longleftrightarrow>
     st = ''getting ready'' \<and> park_calls evs = 0 \<and>
     Log Warning ''Scheduler failed to get a target.  Going back to getting ready state.''
       \<in> set evs"

definition parked_once :: "string \<Rightarrow> event list \<Rightarrow> bool" where
  "parked_once st evs \<longleftrightarrow> st = ''parking'' \<and> park_calls evs = 1"

definition escalated_if_sent :: "command \<Rightarrow> string \<Rightarrow> event list \<Rightarrow> bool" where
  "escalated_if_sent a st evs \<longleftrightarrow>
     (Command a \<notin> set evs \<and> critical_logs evs = 0) \<or>
     (st = ''parking'' \<and> critical_logs evs = 1 \<and> Command MountPark \<in> set evs)"

text \<open>
  \<open>leaves_heartbeat m\<close>: whatever \<open>m\<close> does and however it ends, it leaves every file as
  it was and adds no record of a call of \<open>heartbeat\<close> to the trace.
\<close>

definition leaves_heartbeat :: "'a prog \<Rightarrow> bool" where
  "leaves_heartbeat m \<longleftrightarrow>
     (\<forall>s. files (snd (m s)) = files s \<and>
          heartbeat_calls (trace (snd (m s))) = heartbeat_calls (trace s))"

subsection \<open>Sample instances and conditions\<close>

text \<open>An instance on which no method has run yet, in the state \<open>__init__\<close> gives it.\<close>

definition fresh_observatory :: observatory where
  "fresh_observatory =
     \<lparr>current_state = ''shutdown'', is_dark_attr = Method, site_date = 0, sun_alt = 0,
      scheduler_target = None, heartbeat_filename = ''heartbeat'', files = Map.empty,
      open_handles = Map.empty, trace = []\<rparr>"

text \<open>
  Day, adapters disconnected, weather unsafe, no command failing: the conditions of the
  shutdown state before the start time.
\<close>

definition day_conditions :: conditions where
  "day_conditions =
     \<lparr>camera_connected = False, camera_cooling = False, camera_cooled = False,
      camera_exposing = False, mount_connected = False, mount_tracking = False,
      mount_slewing = False, mount_parked = True, weather_safe = False,
      time_to_start = False, fails = (\<lambda>cmd. False), ephem_now = 42000,
      sun_altitude_deg = (\<lambda>d. 30), datetime_now = ''2015-01-01 12:00:00.000123'',
      open_fails = False, flush_fails = False\<rparr>"

text \<open>
  Night, camera and mount connected, camera cooling and cooled, mount idle, weather
  safe, no command failing.
\<close>

definition night_conditions :: conditions where
  "night_conditions =
     \<lparr>camera_connected = True, camera_cooling = True, camera_cooled = True,
      camera_exposing = False, mount_connected = True, mount_tracking = False,
      mount_slewing = False, mount_parked = False, weather_safe = True,
      time_to_start = True, fails = (\<lambda>cmd. False), ephem_now = 42000,
      sun_altitude_deg = (\<lambda>d. - 30), datetime_now = ''2015-01-01 23:00:00.000123'',
      open_fails = False, flush_fails = False\<rparr>"

text \<open>A target with two of its three images taken and its astrometry solved.\<close>

definition sample_target :: target where
  "sample_target =
     \<lparr>name = ''M42'', min_images = 3, images_taken = 2, test_image_taken = True,
      completed = False, astrometry_solved = True, analysis_attempted = True,
      analysis_in_progress = False\<rparr>"

text \<open>The day conditions with camera and mount connected: what the sleeping state expects.\<close>

definition sleeping_day :: conditions where
  "sleeping_day = day_conditions\<lparr>camera_connected := True, mount_connected := True\<rparr>"

text \<open>The night conditions with the sun 12.1 degrees below the horizon.\<close>

definition twilight :: conditions where
  "twilight = night_conditions\<lparr>sun_altitude_deg := (\<lambda>d. - 12.1)\<rparr>"

text \<open>The night conditions with unsafe weather.\<close>

definition unsafe_night :: conditions where
  "unsafe_night = night_conditions\<lparr>weather_safe := False\<rparr>"

text \<open>The night conditions with the mount disconnected and refusing to connect.\<close>

definition mount_lost :: conditions where
  "mount_lost = night_conditions\<lparr>mount_connected := False, fails := (\<lambda>cmd. cmd = MountConnect)\<rparr>"

text \<open>The same, with a scheduler that fails as well.\<close>

definition mount_and_scheduler_lost :: conditions where
  "mount_and_scheduler_lost = night_conditions\<lparr>mount_connected := False,
     fails := (\<lambda>cmd. cmd = SchedulerGetTarget \<or> cmd = MountConnect)\<rparr>"

text \<open>The night conditions with unsafe weather and a mount that fails to park.\<close>

definition park_stuck :: conditions where
  "park_stuck = night_conditions\<lparr>weather_safe := False, fails := (\<lambda>cmd. cmd = MountPark)\<rparr>"

text \<open>The day conditions with the mount connected and failing to disconnect.\<close>

definition disconnect_stuck :: conditions where
  "disconnect_stuck = day_conditions\<lparr>mount_connected := True,
     fails := (\<lambda>cmd. cmd = MountDisconnect)\<rparr>"

section \<open>Properties\<close>

lemmas prog_defs = ret_def raise_def bind_def try_except_def py_if_def gets_def modify_def
  emit_def logger_def debug_info_def sleep_def call_def set_state_def load_global_def
  module_globals_def entering_def except_park_def park_if_unsafe_def

subsection \<open>The day/night oracle\<close>

lemma never_dark:
  assumes "- 90 \<le> d"
  shows "(radians d < default_dark_horizon) = False"
proof -
  have "pi * (- 90) \<le> pi * d"
    using assms pi_ge_zero by (intro mult_left_mono) simp_all
  then have "- (pi / 2) \<le> radians d"
    by (simp add: radians_def field_simps)
  moreover have "- 2 < - (pi / 2)"
    using pi_less_4 by simp
  ultimately show ?thesis
    by (simp add: default_dark_horizon_def)
qed

lemma is_dark_runs:
  "fst (is_dark c h s) = Inr (radians (sun_altitude_deg c (ephem_now c)) < h)
   \<and> site_date (snd (is_dark c h s)) = ephem_now c
   \<and> sun_alt (snd (is_dark c h s)) = radians (sun_altitude_deg c (ephem_now c))"
  by (simp add: is_dark_def prog_defs)

lemma is_dark_default_never_dark:
  assumes "- 90 \<le> sun_altitude_deg c (ephem_now c)"
  shows "fst (is_dark c default_dark_horizon s) = Inr False"
  using assms by (simp add: is_dark_runs never_dark)

text \<open>
  C7. With the sun 12.1 degrees below the horizon, \<open>is_dark\<close> with the default horizon of
  -12 returns false: the method compares the altitude in radians, about -0.21, with -12.
  And only the first call \<open>self.is_dark()\<close> on an instance runs the method: the second one
  raises \<open>TypeError\<close> and computes nothing.
\<close>

theorem twilight_is_not_dark:
  "sun_altitude_deg twilight (ephem_now twilight) = - 12.1
   \<and> fst (self_is_dark twilight default_dark_horizon fresh_observatory) = Inr False
   \<and> fst (self_is_dark twilight default_dark_horizon
        (snd (self_is_dark twilight default_dark_horizon fresh_observatory)))
      = Inl (TypeError ''bool object is not callable'')"
  by (simp add: self_is_dark_def is_dark_def prog_defs never_dark twilight_def
        night_conditions_def fresh_observatory_def)

text \<open>
  C10. A call of \<open>self.is_dark\<close> that returns leaves the boolean it returned in the instance
  under the name \<open>is_dark\<close>, and every later call \<open>self.is_dark(h')\<close> on that instance raises
  \<open>TypeError\<close>, whatever the conditions then are: the oracle answers at most once per
  instance.
\<close>

theorem is_dark_usable_once:
  assumes "self_is_dark c h s = (Inr b, s')"
  shows "is_dark_attr s' = Rebound b
       \<and> fst (self_is_dark c' h' s') = Inl (TypeError ''bool object is not callable'')"
  using assms
  by (cases "is_dark_attr s")
     (auto simp add: self_is_dark_def is_dark_def prog_defs)

theorem is_dark_usable_once_witness:
  "fst (self_is_dark night_conditions default_dark_horizon fresh_observatory) = Inr False
   \<and> fst (self_is_dark night_conditions default_dark_horizon
        (snd (self_is_dark night_conditions default_dark_horizon fresh_observatory)))
      = Inl (TypeError ''bool object is not callable'')"
proof -
  obtain s' where run:
    "self_is_dark night_conditions default_dark_horizon fresh_observatory = (Inr False, s')"
    by (simp add: self_is_dark_def is_dark_def never_dark prog_defs
          fresh_observatory_def night_conditions_def)
  from is_dark_usable_once [OF run, of night_conditions default_dark_horizon] run
  show ?thesis by simp
qed

subsection \<open>The controller loop\<close>

lemma cycle_raises: "cycle s = (Inl (NameError ''observatory''), s)"
  by (simp add: cycle_def query_conditions_def query_def prog_defs)

text \<open>
  C9. On every instance whose state is not \<open>stop_observing\<close>, \<open>start_observing\<close> ends in
  its first pass with the \<open>NameError\<close> of the name \<open>observatory\<close>, raised by
  \<open>query_conditions\<close> before anything was queried, and leaves the instance, its state
  included, as it was. The dispatch that would follow raises the \<open>NameError\<close> of the name
  \<open>states\<close>.
\<close>

theorem loop_never_completes_a_cycle:
  assumes "current_state s \<noteq> ''stop_observing''"
  shows "start_observing s = Some (Inl (NameError ''observatory''), s)
       \<and> query_conditions s = (Inl (NameError ''observatory''), s)
       \<and> dispatch s = (Inl (NameError ''states''), s)"
  using assms
  by (subst start_observing.simps)
     (simp add: cycle_raises query_conditions_def query_def dispatch_def prog_defs)

theorem loop_never_completes_a_cycle_witness:
  "current_state fresh_observatory \<noteq> ''stop_observing''
   \<and> start_observing fresh_observatory
       = Some (Inl (NameError ''observatory''), fresh_observatory)"
  using loop_never_completes_a_cycle [of fresh_observatory]
  by (simp add: fresh_observatory_def)

subsection \<open>The handlers after a slew and after an exposure\<close>

text \<open>
  C5. With the slew finished and the weather safe, \<open>while_slewing\<close> reads the name
  \<open>target\<close>, which nothing binds: on a target whose test image is not taken the handler
  raises \<open>NameError\<close>, returns no state and has sent no command to the camera.
\<close>

theorem slewing_done_raises:
  "fst (while_slewing (night_conditions\<lparr>mount_slewing := False\<rparr>)
         (fresh_observatory\<lparr>scheduler_target :=
            Some (sample_target\<lparr>test_image_taken := False\<rparr>)\<rparr>))
     = Inl (NameError ''target'')
   \<and> commands_of (trace (snd (while_slewing (night_conditions\<lparr>mount_slewing := False\<rparr>)
         (fresh_observatory\<lparr>scheduler_target :=
            Some (sample_target\<lparr>test_image_taken := False\<rparr>)\<rparr>)))) = []"
  by (simp add: while_slewing_def slewing_repair_def slewing_consistent_def prog_defs
        night_conditions_def fresh_observatory_def commands_of_def)

text \<open>
  C6. \<open>while_analyzing\<close> returns the state \<open>analyzing\<close> and leaves the target as it is,
  with two of three images taken and astrometry solved as well as with three of three.
\<close>

theorem analyzing_is_a_stub:
  "fst (while_analyzing night_conditions
         (fresh_observatory\<lparr>scheduler_target := Some sample_target\<rparr>))
     = Inr ''analyzing''
   \<and> scheduler_target (snd (while_analyzing night_conditions
         (fresh_observatory\<lparr>scheduler_target := Some sample_target\<rparr>)))
     = Some sample_target
   \<and> fst (while_analyzing night_conditions
         (fresh_observatory\<lparr>scheduler_target := Some (sample_target\<lparr>images_taken := 3\<rparr>)\<rparr>))
     = Inr ''analyzing''
   \<and> scheduler_target (snd (while_analyzing night_conditions
         (fresh_observatory\<lparr>scheduler_target := Some (sample_target\<lparr>images_taken := 3\<rparr>)\<rparr>)))
     = Some (sample_target\<lparr>images_taken := 3\<rparr>)"
  by (simp add: while_analyzing_def prog_defs fresh_observatory_def)

subsection \<open>A settled state\<close>

lemma shutdown_settled:
  "shutdown_consistent c \<Longrightarrow>
   fst (while_shutdown c s) = Inr ''shutdown''
   \<and> commands_of (issued s (snd (while_shutdown c s))) = []"
  by (simp add: while_shutdown_def prog_defs issued_def commands_of_def)

lemma slewing_settled:
  "slewing_consistent c \<Longrightarrow>
   fst (while_slewing c s) = Inr ''slewing''
   \<and> commands_of (issued s (snd (while_slewing c s))) = []"
  by (simp add: while_slewing_def prog_defs issued_def commands_of_def)

lemma sleeping_settled:
  assumes "is_dark_attr s = Method"
    and "sleeping_consistent c (radians (sun_altitude_deg c (ephem_now c)) < default_dark_horizon)"
  shows "fst (while_sleeping c s) = Inr ''sleeping''
   \<and> commands_of (issued s (snd (while_sleeping c s))) = []"
  using assms
  by (simp add: while_sleeping_def self_is_dark_def is_dark_def prog_defs issued_def
        commands_of_def)

lemma getting_ready_settled:
  assumes "is_dark_attr s = Method"
    and "getting_ready_consistent c
           (radians (sun_altitude_deg c (ephem_now c)) < default_dark_horizon)
           (scheduler_target s)"
  shows "fst (while_getting_ready c s) = Inr ''getting ready''
   \<and> commands_of (issued s (snd (while_getting_ready c s))) = []"
  using assms
  by (simp add: while_getting_ready_def self_is_dark_def is_dark_def prog_defs issued_def
        commands_of_def)

lemma scheduling_settled:
  assumes "is_dark_attr s = Method"
    and "scheduling_consistent c
           (radians (sun_altitude_deg c (ephem_now c)) < default_dark_horizon)"
  shows "fst (while_scheduling c s) = Inr ''scheduling''
   \<and> commands_of (issued s (snd (while_scheduling c s))) = []"
  using assms
  by (simp add: while_scheduling_def self_is_dark_def is_dark_def prog_defs issued_def
        commands_of_def)

lemma handler_rebound_raises:
  assumes "is_dark_attr s = Rebound b"
  shows "fst (while_sleeping c s) = Inl (TypeError ''bool object is not callable'')"
    and "fst (while_getting_ready c s) = Inl (TypeError ''bool object is not callable'')"
    and "fst (while_scheduling c s) = Inl (TypeError ''bool object is not callable'')"
  using assms
  by (simp_all add: while_sleeping_def while_getting_ready_def while_scheduling_def
        self_is_dark_def prog_defs)

lemma self_states_cases:
  assumes "self_states c st = Some handler"
  obtains "st = ''shutdown''" "handler = while_shutdown c"
  | "st = ''sleeping''" "handler = while_sleeping c"
  | "st = ''getting ready''" "handler = while_getting_ready c"
  | "st = ''scheduling''" "handler = while_scheduling c"
  | "st = ''slewing''" "handler = while_slewing c"
  | "st = ''taking test image''" "handler = while_taking_test_image c"
  | "st = ''analyzing''" "handler = while_analyzing c"
  | "st = ''imaging''" "handler = while_imaging c"
  | "st = ''parking''" "handler = while_parking c"
  | "st = ''parked''" "handler = while_parked c"
  using assms unfolding self_states_def
  by (auto split: if_splits)

text \<open>
  Since \<open>is_dark\<close> with the default horizon is false for every altitude the sun can have,
  the tests of the states getting ready and scheduling, which ask for darkness, never hold.
\<close>

lemma night_states_never_settled:
  assumes "- 90 \<le> sun_altitude_deg c (ephem_now c)"
  shows "\<not> getting_ready_consistent c
            (radians (sun_altitude_deg c (ephem_now c)) < default_dark_horizon) tgt"
    and "\<not> scheduling_consistent c
            (radians (sun_altitude_deg c (ephem_now c)) < default_dark_horizon)"
  using assms
  by (simp_all add: getting_ready_consistent_def scheduling_consistent_def never_dark)

text \<open>
  C4. By day, with camera and mount connected, idle and parked, the test of consistency
  of the sleeping state holds, and \<open>while_sleeping\<close> on a fresh instance returns
  \<open>sleeping\<close> without a command. Invoked again on the instance it has just left, under
  the same conditions, it raises \<open>TypeError\<close> and returns no state: its test starts with
  \<open>self.is_dark()\<close>, and the first invocation has replaced the method by a boolean.
\<close>

theorem settled_sleeping_twice_raises:
  "sleeping_consistent sleeping_day False
   \<and> fst (while_sleeping sleeping_day fresh_observatory) = Inr ''sleeping''
   \<and> commands_of (issued fresh_observatory
        (snd (while_sleeping sleeping_day fresh_observatory))) = []
   \<and> fst (while_sleeping sleeping_day (snd (while_sleeping sleeping_day fresh_observatory)))
      = Inl (TypeError ''bool object is not callable'')"
  by (simp add: while_sleeping_def sleeping_consistent_def self_is_dark_def is_dark_def
        never_dark prog_defs issued_def commands_of_def sleeping_day_def day_conditions_def
        fresh_observatory_def)

subsection \<open>Running a block of statements\<close>

lemma hoare_bind:
  assumes "hoare P m R" and "hoare R n Q"
  shows "hoare P (bind m (\<lambda>_. n)) Q"
  unfolding hoare_def
proof (intro allI impI)
  fix s assume "P s"
  with assms(1) obtain s1 where m: "m s = (Inr (), s1)" and "R s1"
    unfolding hoare_def by blast
  with assms(2) obtain s2 where n: "n s1 = (Inr (), s2)" and q: "Q s2"
    unfolding hoare_def by blast
  from m n have "bind m (\<lambda>_. n) s = (Inr (), s2)" by (simp add: bind_def)
  with q show "\<exists>s'. bind m (\<lambda>_. n) s = (Inr (), s') \<and> Q s'" by blast
qed

lemma hoare_block_nil: "hoare P (block []) P"
  by (simp add: hoare_def ret_def)

lemma hoare_block_cons:
  assumes "hoare P m R" and "hoare R (block ms) Q"
  shows "hoare P (block (m # ms)) Q"
  using hoare_bind [OF assms] by simp

lemma hoare_block_inv:
  "list_all (\<lambda>m. hoare I m I) ms \<Longrightarrow> hoare I (block ms) I"
proof (induction ms)
  case Nil
  show ?case by (rule hoare_block_nil)
next
  case (Cons m ms)
  then have "hoare I m I" and "hoare I (block ms) I" by simp_all
  then show ?case by (rule hoare_block_cons)
qed

lemma block_append: "block (xs @ ys) s = bind (block xs) (\<lambda>_. block ys) s"
  by (induction xs arbitrary: s) (simp_all add: bind_def ret_def split: prod.splits sum.splits)

lemma hoare_block_append:
  assumes "hoare P (block xs) R" and "hoare R (block ys) Q"
  shows "hoare P (block (xs @ ys)) Q"
  using hoare_bind [OF assms] by (simp add: hoare_def block_append)

lemma hoare_block_split:
  assumes "hoare P (block (take n ms)) R" and "hoare R (block (drop n ms)) Q"
  shows "hoare P (block ms) Q"
  using hoare_block_append [OF assms] by simp

lemma hoare_after:
  assumes "acts m R"
    and "\<And>st evs st' evs'. Rel st evs \<Longrightarrow> R st st' evs' \<Longrightarrow> Rel' st' (evs @ evs')"
  shows "hoare (after s0 Rel) m (after s0 Rel')"
  unfolding hoare_def
proof (intro allI impI)
  fix s assume "after s0 Rel s"
  then obtain evs where t0: "trace s = trace s0 @ evs" and rel: "Rel (current_state s) evs"
    unfolding after_def by blast
  from assms(1) obtain s' evs' where run: "m s = (Inr (), s')"
    and t: "trace s' = trace s @ evs'"
    and r: "R (current_state s) (current_state s') evs'"
    unfolding acts_def by blast
  from t t0 have "trace s' = trace s0 @ (evs @ evs')" by simp
  with assms(2) [OF rel r] have "after s0 Rel' s'"
    unfolding after_def by blast
  with run show "\<exists>s'. m s = (Inr (), s') \<and> after s0 Rel' s'" by blast
qed

lemma run_repair:
  assumes "hoare (after s Rel) repair (after s Rel')"
    and "after s Rel s1"
    and "h s = (case repair s1 of (Inl e, s') \<Rightarrow> (Inl e, s')
                 | (Inr u, s') \<Rightarrow> (Inr (current_state s'), s'))"
  shows "\<exists>st. fst (h s) = Inr st \<and> Rel' st (issued s (snd (h s)))"
proof -
  from assms(1,2) obtain s' where run: "repair s1 = (Inr (), s')" and a: "after s Rel' s'"
    unfolding hoare_def by blast
  from a obtain evs where "trace s' = trace s @ evs" and "Rel' (current_state s') evs"
    unfolding after_def by blast
  then have "Rel' (current_state s') (issued s s')" by (simp add: issued_def)
  with run assms(3) show ?thesis by simp
qed

subsection \<open>What each repair step does\<close>

lemma acts_repair_step:
  assumes "\<not> fails c MountPark"
  shows "acts (py_if b (block [logger l m, try_except (call c cmd) (except_park c msg)]))
     (\<lambda>st st' evs.
        if b then
          (if fails c cmd
           then st' = ''parking'' \<and> evs = [Log l m, Command cmd, Log Critical msg, Command MountPark]
           else st' = st \<and> evs = [Log l m, Command cmd])
        else st' = st \<and> evs = [])"
  using assms by (simp add: acts_def prog_defs)

lemma acts_call_step:
  assumes "\<not> fails c cmd"
  shows "acts (py_if b (block [logger l m, call c cmd]))
     (\<lambda>st st' evs. st' = st \<and> evs = (if b then [Log l m, Command cmd] else []))"
  using assms by (simp add: acts_def prog_defs)

lemma acts_connect_both:
  assumes "\<not> fails c MountPark"
  shows "acts (py_if b (block [logger l m, set_state st1,
            try_except (call c cmd1) (except_park c msg1),
            try_except (call c cmd2) (except_park c msg2)]))
     (\<lambda>st st' evs.
        if b then
          st' = (if fails c cmd1 \<or> fails c cmd2 then ''parking'' else st1) \<and>
          evs = [Log l m, Command cmd1]
                @ (if fails c cmd1 then [Log Critical msg1, Command MountPark] else [])
                @ [Command cmd2]
                @ (if fails c cmd2 then [Log Critical msg2, Command MountPark] else [])
        else st' = st \<and> evs = [])"
  using assms by (simp add: acts_def prog_defs)

lemma acts_schedule:
  "acts (py_if b (block [logger l m, set_state st1,
           try_except (bind (load_global ''scheduler'') f)
             (block [set_state st2, logger l2 m2])]))
     (\<lambda>st st' evs. if b then st' = st2 \<and> evs = [Log l m, Log l2 m2] else st' = st \<and> evs = [])"
  by (simp add: acts_def prog_defs)

lemma acts_clear_target:
  "acts (bind (gets scheduler_target) (\<lambda>tgt.
           py_if (tgt \<noteq> None) (block [logger l m, modify (\<lambda>s. s\<lparr>scheduler_target := None\<rparr>)])))
     (\<lambda>st st' evs. st' = st \<and> (evs = [] \<or> evs = [Log l m]))"
  by (simp add: acts_def prog_defs)

lemma acts_park_if_unsafe:
  "acts (park_if_unsafe c)
     (\<lambda>st st' evs.
        if weather_safe c then st' = st \<and> evs = []
        else if fails c MountPark
          then st' = ''getting ready'' \<and>
               evs = [Log Info ''Weather is bad.  Parking.'', Command MountPark,
                      Log Critical ''Unable to park during bad weather.'']
          else st' = ''parking'' \<and>
               evs = [Log Info ''Weather is bad.  Parking.'', Command MountPark])"
  by (simp add: acts_def prog_defs)

lemmas rel_defs = quiet_so_far_def retrying_def parked_once_def escalated_if_sent_def
  critical_logs_def park_calls_def

lemma entered_Method:
  assumes "is_dark_attr s = Method"
  shows "current_state (entered c st s) = st"
    and "trace (entered c st s) =
           trace s @ [DebugInfo (''Entering '' @ st @ '' while_state function.''),
                      Log Debug ''Calculating is_dark.'']"
    and "scheduler_target (entered c st s) = scheduler_target s"
  using assms by (simp_all add: entered_def self_is_dark_def is_dark_def prog_defs)

lemma after_entered:
  assumes "is_dark_attr s = Method"
    and "Rel st [DebugInfo (''Entering '' @ st @ '' while_state function.''),
                 Log Debug ''Calculating is_dark.'']"
  shows "after s Rel (entered c st s)"
  using assms by (simp add: after_def entered_Method)

lemma after_reported:
  assumes "Rel st [DebugInfo (''Entering '' @ st @ '' while_state function.'')]"
  shows "after s Rel (reported st s)"
  using assms by (simp add: after_def reported_def prog_defs)

lemma getting_ready_prologue:
  assumes "is_dark_attr s = Method"
    and "\<not> getting_ready_consistent c (radians (sun_altitude_deg c (ephem_now c)) < default_dark_horizon)
           (scheduler_target s)"
  shows "while_getting_ready c s =
     (case getting_ready_repair c (entered c ''getting ready'' s) of
        (Inl e, s') \<Rightarrow> (Inl e, s')
      | (Inr u, s') \<Rightarrow> (Inr (current_state s'), s'))"
  using assms
  by (simp add: while_getting_ready_def entered_def self_is_dark_def is_dark_def prog_defs
        split: prod.splits sum.splits)

lemma shutdown_prologue:
  assumes "\<not> shutdown_consistent c"
  shows "while_shutdown c s =
     (case shutdown_repair c (reported ''shutdown'' s) of
        (Inl e, s') \<Rightarrow> (Inl e, s')
      | (Inr u, s') \<Rightarrow> (Inr (current_state s'), s'))"
  using assms
  by (simp add: while_shutdown_def reported_def prog_defs split: prod.splits sum.splits)

lemma no_commands_sent: "commands_of evs = [] \<Longrightarrow> Command a \<notin> set evs"
  by (auto simp add: commands_of_def filter_empty_conv)

lemmas sample_defs = fresh_observatory_def day_conditions_def night_conditions_def
  sleeping_day_def twilight_def
  unsafe_night_def mount_lost_def mount_and_scheduler_lost_def park_stuck_def
  disconnect_stuck_def

lemmas handler_defs = while_shutdown_def shutdown_repair_def shutdown_consistent_def
  while_getting_ready_def getting_ready_repair_def getting_ready_consistent_def
  while_slewing_def slewing_repair_def slewing_consistent_def
  self_is_dark_def is_dark_def never_dark

subsection \<open>A failing scheduler\<close>

lemma getting_ready_repair_retries:
  assumes "camera_cooled c" "weather_safe c" "\<forall>cmd. cmd \<noteq> SchedulerGetTarget \<longrightarrow> \<not> fails c cmd"
  shows "hoare (after s0 (quiet_so_far MountPark)) (getting_ready_repair c) (after s0 retrying)"
  unfolding getting_ready_repair_def
  apply (rule hoare_block_split [where n = "Suc (Suc (Suc 0))" and R = "after s0 (quiet_so_far MountPark)"])
  subgoal
    apply (simp only: take_Suc_Cons take_0)
    apply (rule hoare_block_inv)
    apply (simp only: list.pred_inject)
    apply (intro conjI TrueI)
      apply (rule hoare_after,
        (rule acts_repair_step, simp add: assms | rule acts_schedule | rule acts_clear_target
          | rule acts_park_if_unsafe),
        (auto simp add: rel_defs assms split: if_splits)[1])+
    done
  subgoal
    apply (simp only: drop_Suc_Cons drop_0)
    apply (rule hoare_block_cons [where R = "after s0 retrying"])
     apply (rule hoare_after, rule acts_schedule, simp add: rel_defs assms)
    apply (rule hoare_block_inv)
    apply (simp only: list.pred_inject)
    apply (intro conjI TrueI)
      apply (rule hoare_after,
        (rule acts_repair_step, simp add: assms | rule acts_schedule | rule acts_clear_target
          | rule acts_park_if_unsafe),
        (auto simp add: rel_defs assms split: if_splits)[1])+
    done
  done

text \<open>
  C3, as stated, fails twice. With the camera cooled, the weather safe and the scheduler
  failing, a mount that is disconnected and cannot be connected sends the handler to
  \<open>parking\<close> with a command to park. And the failure of the scheduler is not the only one
  that does not end in \<open>parking\<close>: in unsafe weather a mount that fails to park sends the
  handler back to \<open>getting ready\<close>, without any attempt to schedule.
\<close>

theorem scheduling_failure_counterexample:
  "camera_cooled mount_and_scheduler_lost \<and> weather_safe mount_and_scheduler_lost
   \<and> fails mount_and_scheduler_lost SchedulerGetTarget
   \<and> fst (while_getting_ready mount_and_scheduler_lost fresh_observatory) = Inr ''parking''
   \<and> park_calls (issued fresh_observatory
        (snd (while_getting_ready mount_and_scheduler_lost fresh_observatory))) = 1
   \<and> fails park_stuck MountPark
   \<and> fst (while_getting_ready park_stuck fresh_observatory) = Inr ''getting ready''
   \<and> Log Warning ''Scheduler failed to get a target.  Going back to getting ready state.''
        \<notin> set (issued fresh_observatory
             (snd (while_getting_ready park_stuck fresh_observatory)))"
  by (simp add: handler_defs prog_defs sample_defs issued_def park_calls_def)

text \<open>
  C3, amended. On an instance that still finds the method under the name \<open>is_dark\<close>, with
  the camera cooled, the weather safe and no command to the camera or the mount failing,
  \<open>while_getting_ready\<close> returns \<open>getting ready\<close>, has sent no command to park and has
  logged the warning of the failed scheduler, whatever the scheduler would have answered:
  the attempt reads the name \<open>scheduler\<close>, which nothing binds.
\<close>

theorem scheduling_failure_retries:
  assumes "is_dark_attr s = Method" and "camera_cooled c" and "weather_safe c"
    and "\<forall>cmd. cmd \<noteq> SchedulerGetTarget \<longrightarrow> \<not> fails c cmd"
  shows "fst (while_getting_ready c s) = Inr ''getting ready''
       \<and> park_calls (issued s (snd (while_getting_ready c s))) = 0
       \<and> Log Warning ''Scheduler failed to get a target.  Going back to getting ready state.''
           \<in> set (issued s (snd (while_getting_ready c s)))"
proof -
  have "\<not> getting_ready_consistent c (radians (sun_altitude_deg c (ephem_now c)) < default_dark_horizon)
          (scheduler_target s)"
    using assms(2) by (simp add: getting_ready_consistent_def)
  then have e: "while_getting_ready c s =
     (case getting_ready_repair c (entered c ''getting ready'' s) of
        (Inl e, s') \<Rightarrow> (Inl e, s')
      | (Inr u, s') \<Rightarrow> (Inr (current_state s'), s'))"
    by (rule getting_ready_prologue [OF assms(1)])
  have h: "hoare (after s (quiet_so_far MountPark)) (getting_ready_repair c) (after s retrying)"
    by (rule getting_ready_repair_retries [OF assms(2-4)])
  have a: "after s (quiet_so_far MountPark) (entered c ''getting ready'' s)"
    by (rule after_entered [OF assms(1)]) (simp add: rel_defs)
  from run_repair [of s "quiet_so_far MountPark" "getting_ready_repair c" retrying
      "entered c ''getting ready'' s" "while_getting_ready c", OF h a e]
  show ?thesis by (auto simp add: rel_defs)
qed

theorem scheduling_failure_retries_witness:
  "is_dark_attr fresh_observatory = Method
   \<and> camera_cooled night_conditions \<and> weather_safe night_conditions
   \<and> fst (while_getting_ready night_conditions fresh_observatory) = Inr ''getting ready''
   \<and> park_calls (issued fresh_observatory
        (snd (while_getting_ready night_conditions fresh_observatory))) = 0"
proof -
  have 1: "is_dark_attr fresh_observatory = Method" by (simp add: sample_defs)
  have 2: "camera_cooled night_conditions" by (simp add: sample_defs)
  have 3: "weather_safe night_conditions" by (simp add: sample_defs)
  have 4: "\<forall>cmd. cmd \<noteq> SchedulerGetTarget \<longrightarrow> \<not> fails night_conditions cmd"
    by (simp add: sample_defs)
  from scheduling_failure_retries [OF 1 2 3 4] 1 2 3 show ?thesis by simp
qed

subsection \<open>Unsafe weather\<close>

lemma getting_ready_repair_parks:
  assumes "\<not> weather_safe c" "\<forall>cmd. \<not> fails c cmd"
  shows "hoare (after s0 (quiet_so_far MountPark)) (getting_ready_repair c) (after s0 parked_once)"
  unfolding getting_ready_repair_def
  apply (rule hoare_block_split [where n = "Suc (Suc (Suc (Suc (Suc (Suc (Suc (Suc 0)))))))"
        and R = "after s0 (quiet_so_far MountPark)"])
  subgoal
    apply (simp only: take_Suc_Cons take_0)
    apply (rule hoare_block_inv)
    apply (simp only: list.pred_inject)
    apply (intro conjI TrueI)
      apply (rule hoare_after,
        (rule acts_repair_step, simp add: assms | rule acts_schedule | rule acts_clear_target
          | rule acts_park_if_unsafe),
        (auto simp add: rel_defs assms split: if_splits)[1])+
    done
  subgoal
    apply (simp only: drop_Suc_Cons drop_0)
    apply (rule hoare_block_cons [where R = "after s0 parked_once"])
     apply (rule hoare_after, rule acts_park_if_unsafe, simp add: rel_defs assms)
    apply (rule hoare_block_nil)
    done
  done

lemma getting_ready_parks:
  assumes "is_dark_attr s = Method" and "\<not> weather_safe c" and "\<forall>cmd. \<not> fails c cmd"
  shows "fst (while_getting_ready c s) = Inr ''parking''
       \<and> park_calls (issued s (snd (while_getting_ready c s))) = 1"
proof -
  have "\<not> getting_ready_consistent c (radians (sun_altitude_deg c (ephem_now c)) < default_dark_horizon)
          (scheduler_target s)"
    using assms(2) by (simp add: getting_ready_consistent_def)
  then have e: "while_getting_ready c s =
     (case getting_ready_repair c (entered c ''getting ready'' s) of
        (Inl e, s') \<Rightarrow> (Inl e, s')
      | (Inr u, s') \<Rightarrow> (Inr (current_state s'), s'))"
    by (rule getting_ready_prologue [OF assms(1)])
  have h: "hoare (after s (quiet_so_far MountPark)) (getting_ready_repair c)
             (after s parked_once)"
    by (rule getting_ready_repair_parks [OF assms(2-3)])
  have a: "after s (quiet_so_far MountPark) (entered c ''getting ready'' s)"
    by (rule after_entered [OF assms(1)]) (simp add: rel_defs)
  from run_repair [of s "quiet_so_far MountPark" "getting_ready_repair c" parked_once
      "entered c ''getting ready'' s" "while_getting_ready c", OF h a e]
  show ?thesis by (auto simp add: rel_defs)
qed

lemma slewing_parks:
  assumes "\<not> slewing_consistent c" and "\<not> weather_safe c" and "\<forall>cmd. \<not> fails c cmd"
  shows "fst (while_slewing c s) = Inr ''parking''
       \<and> park_calls (issued s (snd (while_slewing c s))) = 1"
  using assms
  by (simp add: while_slewing_def slewing_repair_def prog_defs issued_def park_calls_def)

text \<open>
  C1, as stated, fails: before the start time, with camera and mount disconnected and the
  weather unsafe, the handler of the state \<open>shutdown\<close> returns \<open>shutdown\<close> and sends no
  command to park.
\<close>

theorem unsafe_weather_counterexample:
  "self_states day_conditions ''shutdown'' = Some (while_shutdown day_conditions)
   \<and> \<not> weather_safe day_conditions
   \<and> fst (while_shutdown day_conditions fresh_observatory) = Inr ''shutdown''
   \<and> park_calls (issued fresh_observatory
        (snd (while_shutdown day_conditions fresh_observatory))) = 0"
  by (simp add: self_states_def handler_defs prog_defs sample_defs issued_def park_calls_def)

text \<open>
  C1, amended. With the weather unsafe and no command failing, \<open>while_getting_ready\<close> (on
  an instance that still finds the method under the name \<open>is_dark\<close>) and \<open>while_slewing\<close>
  (unless the mount is connected and slewing) return \<open>parking\<close> and send the command
  to park exactly once.
\<close>

theorem unsafe_weather_parks:
  assumes "\<not> weather_safe c" and "\<forall>cmd. \<not> fails c cmd"
  shows "(is_dark_attr s = Method \<longrightarrow>
            fst (while_getting_ready c s) = Inr ''parking''
            \<and> park_calls (issued s (snd (while_getting_ready c s))) = 1)
       \<and> (\<not> slewing_consistent c \<longrightarrow>
            fst (while_slewing c s) = Inr ''parking''
            \<and> park_calls (issued s (snd (while_slewing c s))) = 1)"
  using getting_ready_parks [OF _ assms] slewing_parks [OF _ assms] by blast

theorem unsafe_weather_parks_witness:
  "\<not> weather_safe unsafe_night
   \<and> is_dark_attr fresh_observatory = Method
   \<and> \<not> slewing_consistent unsafe_night
   \<and> fst (while_getting_ready unsafe_night fresh_observatory) = Inr ''parking''
   \<and> fst (while_slewing unsafe_night fresh_observatory) = Inr ''parking''"
proof -
  have 1: "\<not> weather_safe unsafe_night" by (simp add: sample_defs)
  have 2: "\<forall>cmd. \<not> fails unsafe_night cmd" by (simp add: sample_defs)
  have 3: "is_dark_attr fresh_observatory = Method" by (simp add: sample_defs)
  have 4: "\<not> slewing_consistent unsafe_night" by (simp add: slewing_consistent_def sample_defs)
  from unsafe_weather_parks [OF 1 2, of fresh_observatory] 1 3 4 show ?thesis by simp
qed

subsection \<open>A failing corrective command\<close>

lemma camera_connect_escalates:
  assumes "\<forall>cmd. fails c cmd \<longleftrightarrow> cmd = CameraConnect" "\<not> (camera_cooled c \<and> weather_safe c)"
  shows "hoare (after s0 (quiet_so_far CameraConnect)) (getting_ready_repair c)
           (after s0 (escalated_if_sent CameraConnect))"
  unfolding getting_ready_repair_def
  apply (rule hoare_block_split [where n = "0" and R = "after s0 (quiet_so_far CameraConnect)"])
  subgoal
    apply (simp only: take_Suc_Cons take_0)
    apply (rule hoare_block_nil)
    done
  subgoal
    apply (simp only: drop_Suc_Cons drop_0)
    apply (rule hoare_block_cons [where R = "after s0 (escalated_if_sent CameraConnect)"])
     apply (rule hoare_after, rule acts_repair_step, simp add: assms,
        (auto simp add: rel_defs assms split: if_splits)[1])
    apply (rule hoare_block_inv)
    apply (simp only: list.pred_inject)
    apply (intro conjI TrueI)
      apply (rule hoare_after,
        (rule acts_repair_step, simp add: assms | rule acts_schedule | rule acts_clear_target
          | rule acts_park_if_unsafe),
        (auto simp add: rel_defs assms split: if_splits)[1])+
    done
  done

lemma set_cooling_escalates:
  assumes "\<forall>cmd. fails c cmd \<longleftrightarrow> cmd = (CameraSetCooling True)" "\<not> (camera_cooled c \<and> weather_safe c)"
  shows "hoare (after s0 (quiet_so_far (CameraSetCooling True))) (getting_ready_repair c)
           (after s0 (escalated_if_sent (CameraSetCooling True)))"
  unfolding getting_ready_repair_def
  apply (rule hoare_block_split [where n = "Suc 0" and R = "after s0 (quiet_so_far (CameraSetCooling True))"])
  subgoal
    apply (simp only: take_Suc_Cons take_0)
    apply (rule hoare_block_inv)
    apply (simp only: list.pred_inject)
    apply (intro conjI TrueI)
      apply (rule hoare_after,
        (rule acts_repair_step, simp add: assms | rule acts_schedule | rule acts_clear_target
          | rule acts_park_if_unsafe),
        (auto simp add: rel_defs assms split: if_splits)[1])+
    done
  subgoal
    apply (simp only: drop_Suc_Cons drop_0)
    apply (rule hoare_block_cons [where R = "after s0 (escalated_if_sent (CameraSetCooling True))"])
     apply (rule hoare_after, rule acts_repair_step, simp add: assms,
        (auto simp add: rel_defs assms split: if_splits)[1])
    apply (rule hoare_block_inv)
    apply (simp only: list.pred_inject)
    apply (intro conjI TrueI)
      apply (rule hoare_after,
        (rule acts_repair_step, simp add: assms | rule acts_schedule | rule acts_clear_target
          | rule acts_park_if_unsafe),
        (auto simp add: rel_defs assms split: if_splits)[1])+
    done
  done

lemma cancel_exposure_escalates:
  assumes "\<forall>cmd. fails c cmd \<longleftrightarrow> cmd = CameraCancelExposure" "\<not> (camera_cooled c \<and> weather_safe c)"
  shows "hoare (after s0 (quiet_so_far CameraCancelExposure)) (getting_ready_repair c)
           (after s0 (escalated_if_sent CameraCancelExposure))"
  unfolding getting_ready_repair_def
  apply (rule hoare_block_split [where n = "Suc (Suc 0)" and R = "after s0 (quiet_so_far CameraCancelExposure)"])
  subgoal
    apply (simp only: take_Suc_Cons take_0)
    apply (rule hoare_block_inv)
    apply (simp only: list.pred_inject)
    apply (intro conjI TrueI)
      apply (rule hoare_after,
        (rule acts_repair_step, simp add: assms | rule acts_schedule | rule acts_clear_target
          | rule acts_park_if_unsafe),
        (auto simp add: rel_defs assms split: if_splits)[1])+
    done
  subgoal
    apply (simp only: drop_Suc_Cons drop_0)
    apply (rule hoare_block_cons [where R = "after s0 (escalated_if_sent CameraCancelExposure)"])
     apply (rule hoare_after, rule acts_repair_step, simp add: assms,
        (auto simp add: rel_defs assms split: if_splits)[1])
    apply (rule hoare_block_inv)
    apply (simp only: list.pred_inject)
    apply (intro conjI TrueI)
      apply (rule hoare_after,
        (rule acts_repair_step, simp add: assms | rule acts_schedule | rule acts_clear_target
          | rule acts_park_if_unsafe),
        (auto simp add: rel_defs assms split: if_splits)[1])+
    done
  done

lemma mount_connect_escalates:
  assumes "\<forall>cmd. fails c cmd \<longleftrightarrow> cmd = MountConnect"
  shows "hoare (after s0 (quiet_so_far MountConnect)) (getting_ready_repair c)
           (after s0 (escalated_if_sent MountConnect))"
  unfolding getting_ready_repair_def
  apply (rule hoare_block_split [where n = "Suc (Suc (Suc (Suc 0)))" and R = "after s0 (quiet_so_far MountConnect)"])
  subgoal
    apply (simp only: take_Suc_Cons take_0)
    apply (rule hoare_block_inv)
    apply (simp only: list.pred_inject)
    apply (intro conjI TrueI)
      apply (rule hoare_after,
        (rule acts_repair_step, simp add: assms | rule acts_schedule | rule acts_clear_target
          | rule acts_park_if_unsafe),
        (auto simp add: rel_defs assms split: if_splits)[1])+
    done
  subgoal
    apply (simp only: drop_Suc_Cons drop_0)
    apply (rule hoare_block_cons [where R = "after s0 (escalated_if_sent MountConnect)"])
     apply (rule hoare_after, rule acts_repair_step, simp add: assms,
        (auto simp add: rel_defs assms split: if_splits)[1])
    apply (rule hoare_block_inv)
    apply (simp only: list.pred_inject)
    apply (intro conjI TrueI)
      apply (rule hoare_after,
        (rule acts_repair_step, simp add: assms | rule acts_schedule | rule acts_clear_target
          | rule acts_park_if_unsafe),
        (auto simp add: rel_defs assms split: if_splits)[1])+
    done
  done

lemma set_tracking_escalates:
  assumes "\<forall>cmd. fails c cmd \<longleftrightarrow> cmd = (MountSetTrackingRate 0 0)"
  shows "hoare (after s0 (quiet_so_far (MountSetTrackingRate 0 0))) (getting_ready_repair c)
           (after s0 (escalated_if_sent (MountSetTrackingRate 0 0)))"
  unfolding getting_ready_repair_def
  apply (rule hoare_block_split [where n = "Suc (Suc (Suc (Suc (Suc 0))))" and R = "after s0 (quiet_so_far (MountSetTrackingRate 0 0))"])
  subgoal
    apply (simp only: take_Suc_Cons take_0)
    apply (rule hoare_block_inv)
    apply (simp only: list.pred_inject)
    apply (intro conjI TrueI)
      apply (rule hoare_after,
        (rule acts_repair_step, simp add: assms | rule acts_schedule | rule acts_clear_target
          | rule acts_park_if_unsafe),
        (auto simp add: rel_defs assms split: if_splits)[1])+
    done
  subgoal
    apply (simp only: drop_Suc_Cons drop_0)
    apply (rule hoare_block_cons [where R = "after s0 (escalated_if_sent (MountSetTrackingRate 0 0))"])
     apply (rule hoare_after, rule acts_repair_step, simp add: assms,
        (auto simp add: rel_defs assms split: if_splits)[1])
    apply (rule hoare_block_inv)
    apply (simp only: list.pred_inject)
    apply (intro conjI TrueI)
      apply (rule hoare_after,
        (rule acts_repair_step, simp add: assms | rule acts_schedule | rule acts_clear_target
          | rule acts_park_if_unsafe),
        (auto simp add: rel_defs assms split: if_splits)[1])+
    done
  done

lemma cancel_slew_escalates:
  assumes "\<forall>cmd. fails c cmd \<longleftrightarrow> cmd = MountCancelSlew"
  shows "hoare (after s0 (quiet_so_far MountCancelSlew)) (getting_ready_repair c)
           (after s0 (escalated_if_sent MountCancelSlew))"
  unfolding getting_ready_repair_def
  apply (rule hoare_block_split [where n = "Suc (Suc (Suc (Suc (Suc (Suc 0)))))" and R = "after s0 (quiet_so_far MountCancelSlew)"])
  subgoal
    apply (simp only: take_Suc_Cons take_0)
    apply (rule hoare_block_inv)
    apply (simp only: list.pred_inject)
    apply (intro conjI TrueI)
      apply (rule hoare_after,
        (rule acts_repair_step, simp add: assms | rule acts_schedule | rule acts_clear_target
          | rule acts_park_if_unsafe),
        (auto simp add: rel_defs assms split: if_splits)[1])+
    done
  subgoal
    apply (simp only: drop_Suc_Cons drop_0)
    apply (rule hoare_block_cons [where R = "after s0 (escalated_if_sent MountCancelSlew)"])
     apply (rule hoare_after, rule acts_repair_step, simp add: assms,
        (auto simp add: rel_defs assms split: if_splits)[1])
    apply (rule hoare_block_inv)
    apply (simp only: list.pred_inject)
    apply (intro conjI TrueI)
      apply (rule hoare_after,
        (rule acts_repair_step, simp add: assms | rule acts_schedule | rule acts_clear_target
          | rule acts_park_if_unsafe),
        (auto simp add: rel_defs assms split: if_splits)[1])+
    done
  done

lemma getting_ready_repair_escalates:
  assumes "a \<in> {CameraConnect, CameraSetCooling True, CameraCancelExposure, MountConnect,
                MountSetTrackingRate 0 0, MountCancelSlew}"
    and "\<forall>cmd. fails c cmd \<longleftrightarrow> cmd = a"
    and "a \<in> {CameraConnect, CameraSetCooling True, CameraCancelExposure} \<longrightarrow>
           \<not> (camera_cooled c \<and> weather_safe c)"
  shows "hoare (after s0 (quiet_so_far a)) (getting_ready_repair c)
           (after s0 (escalated_if_sent a))"
  using assms
  by (auto intro: camera_connect_escalates set_cooling_escalates cancel_exposure_escalates
        mount_connect_escalates set_tracking_escalates cancel_slew_escalates)

lemma getting_ready_escalates:
  assumes six: "a \<in> {CameraConnect, CameraSetCooling True, CameraCancelExposure, MountConnect,
                MountSetTrackingRate 0 0, MountCancelSlew}"
    and only: "\<forall>cmd. fails c cmd \<longleftrightarrow> cmd = a"
    and fresh: "is_dark_attr s = Method"
    and side: "a \<in> {CameraConnect, CameraSetCooling True, CameraCancelExposure} \<longrightarrow>
           \<not> (camera_cooled c \<and> weather_safe c)"
    and sent: "Command a \<in> set (issued s (snd (while_getting_ready c s)))"
  shows "fst (while_getting_ready c s) = Inr ''parking''
       \<and> Command MountPark \<in> set (issued s (snd (while_getting_ready c s)))
       \<and> critical_logs (issued s (snd (while_getting_ready c s))) = 1"
proof (cases "getting_ready_consistent c (radians (sun_altitude_deg c (ephem_now c)) < default_dark_horizon)
          (scheduler_target s)")
  case True
  with fresh have "commands_of (issued s (snd (while_getting_ready c s))) = []"
    by (simp add: getting_ready_settled)
  with sent show ?thesis by (simp add: no_commands_sent)
next
  case False
  then have e: "while_getting_ready c s =
     (case getting_ready_repair c (entered c ''getting ready'' s) of
        (Inl e, s') \<Rightarrow> (Inl e, s')
      | (Inr u, s') \<Rightarrow> (Inr (current_state s'), s'))"
    by (rule getting_ready_prologue [OF fresh])
  have h: "hoare (after s (quiet_so_far a)) (getting_ready_repair c)
             (after s (escalated_if_sent a))"
    by (rule getting_ready_repair_escalates [OF six only side])
  have a: "after s (quiet_so_far a) (entered c ''getting ready'' s)"
    by (rule after_entered [OF fresh]) (simp add: rel_defs)
  from run_repair [of s "quiet_so_far a" "getting_ready_repair c" "escalated_if_sent a"
      "entered c ''getting ready'' s" "while_getting_ready c", OF h a e] sent
  show ?thesis by (auto simp add: escalated_if_sent_def)
qed

lemma shutdown_repair_escalates:
  assumes "a \<in> {CameraConnect, CameraSetCooling True, CameraCancelExposure, MountConnect,
                MountSetTrackingRate 0 0, MountCancelSlew}"
    and "\<forall>cmd. fails c cmd \<longleftrightarrow> cmd = a"
  shows "hoare (after s0 (quiet_so_far a)) (shutdown_repair c)
           (after s0 (escalated_if_sent a))"
proof -
  have ok: "\<not> fails c MountPark" "\<not> fails c MountDisconnect" "\<not> fails c CameraDisconnect"
    using assms by auto
  have other: "Command MountDisconnect \<noteq> Command a" "Command CameraDisconnect \<noteq> Command a"
    using assms by auto
  have connects: "fails c CameraConnect \<longleftrightarrow> a = CameraConnect"
     "fails c MountConnect \<longleftrightarrow> a = MountConnect"
    using assms by auto
  show ?thesis
    unfolding shutdown_repair_def
    apply (rule hoare_block_split [where n = "Suc (Suc 0)" and R = "after s0 (quiet_so_far a)"])
    subgoal
      apply (simp only: take_Suc_Cons take_0)
      apply (rule hoare_block_inv)
      apply (simp only: list.pred_inject)
      apply (intro conjI TrueI)
       apply (rule hoare_after, rule acts_call_step, simp add: ok,
          (use other in \<open>auto simp add: rel_defs split: if_splits\<close>)[1])+
      done
    subgoal
      apply (simp only: drop_Suc_Cons drop_0)
      apply (rule hoare_block_cons [where R = "after s0 (escalated_if_sent a)"])
       apply (rule hoare_after, rule acts_connect_both, simp add: ok,
          (auto simp add: rel_defs connects split: if_splits)[1])
      apply (rule hoare_block_nil)
      done
    done
qed

lemma shutdown_escalates:
  assumes six: "a \<in> {CameraConnect, CameraSetCooling True, CameraCancelExposure, MountConnect,
                MountSetTrackingRate 0 0, MountCancelSlew}"
    and only: "\<forall>cmd. fails c cmd \<longleftrightarrow> cmd = a"
    and sent: "Command a \<in> set (issued s (snd (while_shutdown c s)))"
  shows "fst (while_shutdown c s) = Inr ''parking''
       \<and> Command MountPark \<in> set (issued s (snd (while_shutdown c s)))
       \<and> critical_logs (issued s (snd (while_shutdown c s))) = 1"
proof (cases "shutdown_consistent c")
  case True
  then have "commands_of (issued s (snd (while_shutdown c s))) = []"
    by (simp add: shutdown_settled)
  with sent show ?thesis by (simp add: no_commands_sent)
next
  case False
  then have e: "while_shutdown c s =
     (case shutdown_repair c (reported ''shutdown'' s) of
        (Inl e, s') \<Rightarrow> (Inl e, s')
      | (Inr u, s') \<Rightarrow> (Inr (current_state s'), s'))"
    by (rule shutdown_prologue)
  have h: "hoare (after s (quiet_so_far a)) (shutdown_repair c) (after s (escalated_if_sent a))"
    by (rule shutdown_repair_escalates [OF six only])
  have a: "after s (quiet_so_far a) (reported ''shutdown'' s)"
    by (rule after_reported) (simp add: rel_defs)
  from run_repair [of s "quiet_so_far a" "shutdown_repair c" "escalated_if_sent a"
      "reported ''shutdown'' s" "while_shutdown c", OF h a e] sent
  show ?thesis by (auto simp add: escalated_if_sent_def)
qed

text \<open>
  C2, as stated, fails: in the state \<open>shutdown\<close> with the mount connected, a failing
  \<open>disconnect\<close> leaves the handler as an exception; no state is returned, nothing critical
  is logged and the mount is not told to park.
\<close>

theorem corrective_failure_counterexample:
  "fails disconnect_stuck MountDisconnect
   \<and> fst (while_shutdown disconnect_stuck fresh_observatory)
       = Inl (CommandFailure MountDisconnect)
   \<and> park_calls (issued fresh_observatory
        (snd (while_shutdown disconnect_stuck fresh_observatory))) = 0
   \<and> critical_logs (issued fresh_observatory
        (snd (while_shutdown disconnect_stuck fresh_observatory))) = 0"
  by (simp add: handler_defs prog_defs sample_defs issued_def park_calls_def critical_logs_def)

text \<open>
  C2, amended. In \<open>while_shutdown\<close> and in \<open>while_getting_ready\<close> (on an instance that
  still finds the method under the name \<open>is_dark\<close>), when exactly one of the commands
  connect (camera or mount), set-cooling, cancel-exposure, set-tracking-rate and
  cancel-slew fails and the handler sends it, the handler returns \<open>parking\<close>, has told
  the mount to park and has logged exactly one critical record; for a command to the
  camera in \<open>while_getting_ready\<close> this holds unless the camera is cooled and the
  weather safe.
\<close>

theorem corrective_failure_escalates:
  assumes "a \<in> {CameraConnect, CameraSetCooling True, CameraCancelExposure, MountConnect,
                MountSetTrackingRate 0 0, MountCancelSlew}"
    and "\<forall>cmd. fails c cmd \<longleftrightarrow> cmd = a"
    and "handler = while_shutdown c \<or>
         handler = while_getting_ready c \<and> is_dark_attr s = Method \<and>
         (a \<in> {CameraConnect, CameraSetCooling True, CameraCancelExposure} \<longrightarrow>
            \<not> (camera_cooled c \<and> weather_safe c))"
    and "Command a \<in> set (issued s (snd (handler s)))"
  shows "fst (handler s) = Inr ''parking''
       \<and> Command MountPark \<in> set (issued s (snd (handler s)))
       \<and> critical_logs (issued s (snd (handler s))) = 1"
  using assms(3)
proof (elim disjE conjE)
  assume "handler = while_shutdown c"
  with shutdown_escalates [OF assms(1,2)] assms(4) show ?thesis by simp
next
  assume "handler = while_getting_ready c" and "is_dark_attr s = Method"
    and "a \<in> {CameraConnect, CameraSetCooling True, CameraCancelExposure} \<longrightarrow>
            \<not> (camera_cooled c \<and> weather_safe c)"
  with getting_ready_escalates [OF assms(1,2)] assms(4) show ?thesis by simp
qed

theorem corrective_failure_escalates_witness:
  "(\<forall>cmd. fails mount_lost cmd \<longleftrightarrow> cmd = MountConnect)
   \<and> is_dark_attr fresh_observatory = Method
   \<and> Command MountConnect
        \<in> set (issued fresh_observatory (snd (while_getting_ready mount_lost fresh_observatory)))
   \<and> fst (while_getting_ready mount_lost fresh_observatory) = Inr ''parking''
   \<and> critical_logs (issued fresh_observatory
        (snd (while_getting_ready mount_lost fresh_observatory))) = 1"
proof -
  have 1: "MountConnect \<in> {CameraConnect, CameraSetCooling True, CameraCancelExposure,
             MountConnect, MountSetTrackingRate 0 0, MountCancelSlew}" by simp
  have 2: "\<forall>cmd. fails mount_lost cmd \<longleftrightarrow> cmd = MountConnect" by (simp add: sample_defs)
  have 3: "is_dark_attr fresh_observatory = Method" by (simp add: sample_defs)
  have 4: "Command MountConnect
        \<in> set (issued fresh_observatory (snd (while_getting_ready mount_lost fresh_observatory)))"
    by (simp add: handler_defs prog_defs sample_defs issued_def)
  have 5: "while_getting_ready mount_lost = while_shutdown mount_lost \<or>
         while_getting_ready mount_lost = while_getting_ready mount_lost \<and>
         is_dark_attr fresh_observatory = Method \<and>
         (MountConnect \<in> {CameraConnect, CameraSetCooling True, CameraCancelExposure} \<longrightarrow>
            \<not> (camera_cooled mount_lost \<and> weather_safe mount_lost))"
    using 3 by simp
  from corrective_failure_escalates [OF 1 2 5 4] 2 3 4 show ?thesis by simp
qed

subsection \<open>The handlers that call the oracle twice\<close>

text \<open>
  The \<open>else\<close> branches of \<open>while_scheduling\<close> and \<open>while_sleeping\<close> call \<open>self.is_dark()\<close>
  after the test of consistency has called it. \<open>while_scheduling\<close> therefore returns its
  own state or raises; \<open>while_sleeping\<close>, with the camera disconnected and refusing to
  connect, parks the mount and then raises instead of returning.
\<close>

lemma scheduling_returns_scheduling_only:
  assumes "fst (while_scheduling c s) = Inr st"
  shows "st = ''scheduling''"
proof (cases "is_dark_attr s")
  case Method
  show ?thesis
  proof (cases "scheduling_consistent c (radians (sun_altitude_deg c (ephem_now c)) < default_dark_horizon)")
    case True
    with Method assms show ?thesis
      by (simp add: while_scheduling_def self_is_dark_def is_dark_def prog_defs)
  next
    case False
    with Method assms show ?thesis
      by (simp add: while_scheduling_def scheduling_repair_def self_is_dark_def is_dark_def
            bind_def gets_def modify_def set_state_def entering_def debug_info_def emit_def
            logger_def raise_def ret_def)
  qed
next
  case (Rebound b)
  with assms show ?thesis
    by (simp add: while_scheduling_def self_is_dark_def prog_defs)
qed

lemma sleeping_reconnect_raises:
  "fst (while_sleeping
     (day_conditions\<lparr>mount_connected := True, fails := (\<lambda>cmd. cmd = CameraConnect)\<rparr>)
     fresh_observatory) = Inl (TypeError ''bool object is not callable'')"
  by (simp add: while_sleeping_def sleeping_repair_def sleeping_consistent_def
        self_is_dark_def is_dark_def never_dark prog_defs sample_defs)

subsection \<open>The heartbeat\<close>

lemma lh_ret: "leaves_heartbeat (ret x)"
  by (simp add: leaves_heartbeat_def ret_def)

lemma lh_raise: "leaves_heartbeat (raise e)"
  by (simp add: leaves_heartbeat_def raise_def)

lemma lh_gets: "leaves_heartbeat (gets f)"
  by (simp add: leaves_heartbeat_def gets_def)

lemma lh_load_global: "leaves_heartbeat (load_global n)"
  by (simp add: leaves_heartbeat_def load_global_def raise_def)

lemma lh_bind:
  assumes "leaves_heartbeat m" and "\<And>x. leaves_heartbeat (f x)"
  shows "leaves_heartbeat (bind m f)"
  unfolding leaves_heartbeat_def
proof
  fix s
  obtain r s1 where m: "m s = (r, s1)" by (cases "m s")
  from assms(1) m have 1: "files s1 = files s"
      "heartbeat_calls (trace s1) = heartbeat_calls (trace s)"
    by (auto simp add: leaves_heartbeat_def dest: spec [of _ s])
  show "files (snd (bind m f s)) = files s \<and>
        heartbeat_calls (trace (snd (bind m f s))) = heartbeat_calls (trace s)"
  proof (cases r)
    case (Inl e)
    with m 1 show ?thesis by (simp add: bind_def)
  next
    case (Inr x)
    from assms(2) [of x] have "files (snd (f x s1)) = files s1"
        "heartbeat_calls (trace (snd (f x s1))) = heartbeat_calls (trace s1)"
      by (auto simp add: leaves_heartbeat_def)
    with Inr m 1 show ?thesis by (simp add: bind_def)
  qed
qed

lemma lh_block_nil: "leaves_heartbeat (block [])"
  by (simp add: lh_ret)

lemma lh_block_cons:
  assumes "leaves_heartbeat m" and "leaves_heartbeat (block ms)"
  shows "leaves_heartbeat (block (m # ms))"
  using assms by (simp add: lh_bind)

lemma lh_try_except:
  assumes "leaves_heartbeat m" and "leaves_heartbeat h"
  shows "leaves_heartbeat (try_except m h)"
  unfolding leaves_heartbeat_def
proof
  fix s
  obtain r s1 where m: "m s = (r, s1)" by (cases "m s")
  from assms(1) m have 1: "files s1 = files s"
      "heartbeat_calls (trace s1) = heartbeat_calls (trace s)"
    by (auto simp add: leaves_heartbeat_def dest: spec [of _ s])
  from assms(2) have 2: "files (snd (h s1)) = files s1"
      "heartbeat_calls (trace (snd (h s1))) = heartbeat_calls (trace s1)"
    by (auto simp add: leaves_heartbeat_def)
  from m 1 2 show "files (snd (try_except m h s)) = files s \<and>
        heartbeat_calls (trace (snd (try_except m h s))) = heartbeat_calls (trace s)"
    by (cases r) (simp_all add: try_except_def)
qed

lemma lh_py_if: "leaves_heartbeat m \<Longrightarrow> leaves_heartbeat (py_if b m)"
  by (simp add: py_if_def lh_ret)

lemma lh_if:
  "leaves_heartbeat m \<Longrightarrow> leaves_heartbeat n \<Longrightarrow> leaves_heartbeat (if b then m else n)"
  by simp

lemma lh_emit:
  "e \<noteq> Log Debug ''Touching heartbeat file'' \<Longrightarrow> leaves_heartbeat (emit e)"
  by (simp add: leaves_heartbeat_def emit_def modify_def heartbeat_calls_def)

lemma lh_logger:
  "Log l m \<noteq> Log Debug ''Touching heartbeat file'' \<Longrightarrow> leaves_heartbeat (logger l m)"
  by (simp add: logger_def lh_emit)

lemma lh_sleep: "leaves_heartbeat (sleep n)"
  by (simp add: sleep_def lh_emit)

lemma lh_set_state: "leaves_heartbeat (set_state st)"
  by (simp add: leaves_heartbeat_def set_state_def modify_def)

lemma lh_entering: "leaves_heartbeat entering"
  by (simp add: entering_def debug_info_def lh_bind lh_gets lh_emit)

lemma lh_call: "leaves_heartbeat (call c cmd)"
  by (simp add: call_def lh_bind lh_emit lh_raise lh_ret)

lemma lh_clear_target: "leaves_heartbeat (modify (\<lambda>s. s\<lparr>scheduler_target := None\<rparr>))"
  by (simp add: leaves_heartbeat_def modify_def)

lemma lh_self_is_dark: "leaves_heartbeat (self_is_dark c h)"
  by (simp add: leaves_heartbeat_def self_is_dark_def is_dark_def prog_defs
        heartbeat_calls_def split: is_dark_binding.splits)

lemmas lh_rules = lh_ret lh_raise lh_gets lh_load_global lh_bind lh_block_nil lh_block_cons
  lh_try_except lh_py_if lh_if lh_logger lh_sleep lh_set_state lh_entering lh_call
  lh_clear_target lh_self_is_dark

lemma lh_except_park: "leaves_heartbeat (except_park c msg)"
  unfolding except_park_def
  by (intro lh_rules) simp


lemma lh_park_if_unsafe: "leaves_heartbeat (park_if_unsafe c)"
  unfolding park_if_unsafe_def
  by (intro lh_rules) simp_all

lemma handlers_leave_heartbeat:
  "leaves_heartbeat (while_shutdown c)"
  "leaves_heartbeat (while_sleeping c)"
  "leaves_heartbeat (while_getting_ready c)"
  "leaves_heartbeat (while_scheduling c)"
  "leaves_heartbeat (while_slewing c)"
  "leaves_heartbeat (while_taking_test_image c)"
  "leaves_heartbeat (while_analyzing c)"
  "leaves_heartbeat (while_imaging c)"
  "leaves_heartbeat (while_parking c)"
  "leaves_heartbeat (while_parked c)"
  unfolding while_shutdown_def shutdown_repair_def while_sleeping_def sleeping_repair_def
    while_getting_ready_def getting_ready_repair_def while_scheduling_def
    scheduling_repair_def while_slewing_def slewing_repair_def while_taking_test_image_def
    while_analyzing_def while_imaging_def while_parking_def while_parked_def
  by (intro lh_rules lh_except_park lh_park_if_unsafe; simp)+

text \<open>
  When the file cannot be opened, or cannot be flushed when it is closed, the error leaves
  \<open>heartbeat\<close>; in the second case the file is left empty.
\<close>

lemma heartbeat_failure_raises:
  "open_fails c \<Longrightarrow> fst (heartbeat c s) = Inl (IOError (heartbeat_filename s))"
  "\<not> open_fails c \<Longrightarrow> flush_fails c \<Longrightarrow>
     fst (heartbeat c s) = Inl (IOError (heartbeat_filename s))
     \<and> files (snd (heartbeat c s)) (heartbeat_filename s) = Some []"
  by (simp_all add: heartbeat_def with_open_w_def file_open_w_def file_write_def
        file_close_def prog_defs)

text \<open>
  C8, as stated, fails: the first pass of the loop on a fresh instance ends without a call
  of \<open>heartbeat\<close>. No record of such a call is in the trace and the heartbeat file does
  not exist; the handler of the current state, had it been dispatched, would not have
  called \<open>heartbeat\<close> either.
\<close>

theorem heartbeat_missing_counterexample:
  "start_observing fresh_observatory
     = Some (Inl (NameError ''observatory''), fresh_observatory)
   \<and> heartbeat_calls (trace fresh_observatory) \<noteq> 1
   \<and> files fresh_observatory (heartbeat_filename fresh_observatory) = None
   \<and> self_states day_conditions (current_state fresh_observatory)
       = Some (while_shutdown day_conditions)
   \<and> heartbeat_calls (trace (snd (while_shutdown day_conditions fresh_observatory))) \<noteq> 1"
  by (subst start_observing.simps)
     (simp add: cycle_raises heartbeat_calls_def self_states_def handler_defs prog_defs
        sample_defs)

text \<open>
  C8, amended. Whenever \<open>heartbeat\<close> is called and the heartbeat file can be opened and
  flushed, it returns with the file holding the current timestamp and a newline and
  nothing else, and with the handle closed, so that nothing is left in a buffer.
  \<open>start_observing\<close> does not call it: the loop returns or raises with the instance,
  its files and its trace included, as it found it; and no handler of the dictionary
  \<open>self.states\<close> calls it, however the handler ends.
\<close>

theorem heartbeat_writes_timestamp:
  "(\<not> open_fails c \<and> \<not> flush_fails c \<longrightarrow>
      fst (heartbeat c s) = Inr ()
      \<and> files (snd (heartbeat c s)) (heartbeat_filename s) = Some (datetime_now c @ newline)
      \<and> open_handles (snd (heartbeat c s)) (heartbeat_filename s) = None
      \<and> heartbeat_calls (issued s (snd (heartbeat c s))) = 1)
   \<and> (\<exists>r. start_observing s = Some (r, s))
   \<and> (self_states c st = Some handler \<longrightarrow>
        files (snd (handler s)) = files s
        \<and> heartbeat_calls (trace (snd (handler s))) = heartbeat_calls (trace s))"
proof -
  have "\<exists>r. start_observing s = Some (r, s)"
    by (subst start_observing.simps) (simp add: cycle_raises)
  moreover have "\<not> open_fails c \<and> \<not> flush_fails c \<longrightarrow>
      fst (heartbeat c s) = Inr ()
      \<and> files (snd (heartbeat c s)) (heartbeat_filename s) = Some (datetime_now c @ newline)
      \<and> open_handles (snd (heartbeat c s)) (heartbeat_filename s) = None
      \<and> heartbeat_calls (issued s (snd (heartbeat c s))) = 1"
    by (simp add: heartbeat_def with_open_w_def file_open_w_def file_write_def file_close_def
          prog_defs issued_def heartbeat_calls_def)
  moreover have "self_states c st = Some handler \<longrightarrow>
        files (snd (handler s)) = files s
        \<and> heartbeat_calls (trace (snd (handler s))) = heartbeat_calls (trace s)"
  proof
    assume "self_states c st = Some handler"
    then have "leaves_heartbeat handler"
      by (cases rule: self_states_cases) (simp_all add: handlers_leave_heartbeat)
    then show "files (snd (handler s)) = files s
        \<and> heartbeat_calls (trace (snd (handler s))) = heartbeat_calls (trace s)"
      by (simp add: leaves_heartbeat_def)
  qed
  ultimately show ?thesis by blast
qed

theorem heartbeat_writes_timestamp_witness:
  "\<not> open_fails day_conditions \<and> \<not> flush_fails day_conditions
   \<and> self_states day_conditions ''shutdown'' = Some (while_shutdown day_conditions)
   \<and> files (snd (heartbeat day_conditions fresh_observatory)) ''heartbeat''
       = Some (''2015-01-01 12:00:00.000123'' @ newline)
   \<and> files (snd (while_shutdown day_conditions fresh_observatory)) = files fresh_observatory"
  using heartbeat_writes_timestamp
    [of day_conditions fresh_observatory "''shutdown''" "while_shutdown day_conditions"]
  by (simp add: day_conditions_def fresh_observatory_def self_states_def)

end
